theory Spec2Isabelle
  imports Complex_Main
begin

section \<open>Numbers\<close>

text \<open>
  The program computes with JavaScript numbers.  Finite values are modelled as
  reals (rounding is not modelled).  Where the source can produce a value that is
  not finite from finite inputs (a division by zero, \<^verbatim>\<open>Math.min()\<close> of an
  empty list) the result has type \<open>jsnum\<close>, which keeps \<open>NaN\<close> and the two
  infinities apart from the finite values.
\<close>

datatype jsnum = Fin real | NaN | PosInf | NegInf

text \<open>\<^verbatim>\<open>a / b\<close> for finite \<open>a\<close> and \<open>b\<close>.\<close>

definition js_div :: "real \<Rightarrow> real \<Rightarrow> jsnum" where
  "js_div a b =
     (if b \<noteq> 0 then Fin (a / b)
      else if a = 0 then NaN
      else if 0 < a then PosInf
      else NegInf)"

text \<open>\<^verbatim>\<open>x >= b\<close> and \<^verbatim>\<open>x < b\<close> for a finite \<open>x\<close>; every comparison with
  \<open>NaN\<close> is false.\<close>

fun js_ge :: "real \<Rightarrow> jsnum \<Rightarrow> bool" where
  "js_ge x (Fin b) = (b \<le> x)"
| "js_ge x NaN = False"
| "js_ge x PosInf = False"
| "js_ge x NegInf = True"

fun js_lt :: "real \<Rightarrow> jsnum \<Rightarrow> bool" where
  "js_lt x (Fin b) = (x < b)"
| "js_lt x NaN = False"
| "js_lt x PosInf = True"
| "js_lt x NegInf = False"

text \<open>\<^verbatim>\<open>a < t\<close> for a possibly non-finite \<open>a\<close> and a finite \<open>t\<close>.\<close>

fun js_less :: "jsnum \<Rightarrow> real \<Rightarrow> bool" where
  "js_less (Fin a) t = (a < t)"
| "js_less NaN t = False"
| "js_less PosInf t = False"
| "js_less NegInf t = True"

text \<open>\<^verbatim>\<open>a + b\<close> and \<^verbatim>\<open>a - b\<close>.\<close>

fun js_add :: "jsnum \<Rightarrow> jsnum \<Rightarrow> jsnum" where
  "js_add (Fin a) (Fin b) = Fin (a + b)"
| "js_add NaN _ = NaN"
| "js_add _ NaN = NaN"
| "js_add PosInf NegInf = NaN"
| "js_add NegInf PosInf = NaN"
| "js_add PosInf _ = PosInf"
| "js_add _ PosInf = PosInf"
| "js_add NegInf _ = NegInf"
| "js_add _ NegInf = NegInf"

fun js_neg :: "jsnum \<Rightarrow> jsnum" where
  "js_neg (Fin a) = Fin (- a)"
| "js_neg NaN = NaN"
| "js_neg PosInf = NegInf"
| "js_neg NegInf = PosInf"

definition js_sub :: "jsnum \<Rightarrow> jsnum \<Rightarrow> jsnum" where
  "js_sub a b = js_add a (js_neg b)"

text \<open>\<^verbatim>\<open>Math.min(a, c)\<close> with a finite constant \<open>c\<close>: \<open>NaN\<close> if \<open>a\<close> is.\<close>

fun js_min :: "jsnum \<Rightarrow> real \<Rightarrow> jsnum" where
  "js_min (Fin a) c = Fin (min a c)"
| "js_min NaN c = NaN"
| "js_min PosInf c = Fin c"
| "js_min NegInf c = NegInf"

text \<open>\<^verbatim>\<open>a / c\<close> for a finite constant \<open>c > 0\<close>.\<close>

fun js_scale :: "jsnum \<Rightarrow> real \<Rightarrow> jsnum" where
  "js_scale (Fin a) c = Fin (a / c)"
| "js_scale NaN c = NaN"
| "js_scale PosInf c = PosInf"
| "js_scale NegInf c = NegInf"

text \<open>\<^verbatim>\<open>xs.slice(a, b)\<close> for indices \<open>0 \<le> a \<le> b\<close>; the end is clamped to the
  length, as in the source language.\<close>

definition slice :: "nat \<Rightarrow> nat \<Rightarrow> 'a list \<Rightarrow> 'a list" where
  "slice a b xs = take (b - a) (drop a xs)"

text \<open>\<^verbatim>\<open>xs.slice(-n)\<close>: the last \<open>n\<close> elements (all of them if there are fewer);
  \<^verbatim>\<open>slice(-0)\<close> is \<^verbatim>\<open>slice(0)\<close>, the whole array.\<close>

definition slice_last :: "nat \<Rightarrow> 'a list \<Rightarrow> 'a list" where
  "slice_last n xs = (if n = 0 then xs else drop (length xs - n) xs)"

text \<open>\<^verbatim>\<open>arr[arr.length - 1] || null\<close> on an array of finite numbers: \<open>None\<close>
  (null) when the array is empty (the read is \<^verbatim>\<open>undefined\<close>) or its last
  value is \<open>0\<close>, both being falsy.\<close>

definition last_or_null :: "real list \<Rightarrow> real option" where
  "last_or_null arr =
     (if arr = [] then None else if last arr = 0 then None else Some (last arr))"

text \<open>The same on an array that may hold non-finite values: \<open>NaN\<close> is falsy
  too, the infinities are not.\<close>

definition js_last_or_null :: "jsnum list \<Rightarrow> jsnum option" where
  "js_last_or_null arr =
     (if arr = [] then None
      else if last arr = Fin 0 \<or> last arr = NaN then None
      else Some (last arr))"

section \<open>Indicator engine (class SMCIndicators)\<close>

record Candle =
  timestamp :: real
  "open" :: real
  high :: real
  low :: real
  close :: real
  volume :: real

text \<open>
  The records follow the interfaces of the source.  Where a field shares its name with
  a function of the model or with a field of another record, it carries a prefix or a
  suffix: \<open>ob_\<close> and \<open>fvg_\<close> for the fields of an order block and of a gap
  (\<open>type\<close> is \<open>ob_kind\<close> and \<open>fvg_kind\<close>, \<open>size\<close> is \<open>fvg_gap\<close>), and
  \<open>rsi_latest\<close>, \<open>atr_latest\<close>, \<open>vwap_latest\<close> for the fields \<open>rsi\<close>, \<open>atr\<close>,
  \<open>vwap\<close> of an analysis.
\<close>

datatype Trend = Up | Down

datatype BlockType = Bull | Bear

record OrderBlock =
  ob_index :: nat
  ob_timestamp :: real
  ob_open :: real
  ob_high :: real
  ob_low :: real
  ob_close :: real
  ob_kind :: BlockType
  strength :: jsnum

record FVG =
  fvg_index :: nat
  fvg_from :: real
  fvg_to :: real
  fvg_kind :: BlockType
  fvg_gap :: real

record LiquidityEntry =
  price :: real
  touches :: nat
  lastTouch :: nat

record LiquidityZones =
  highs :: "LiquidityEntry list"
  lows :: "LiquidityEntry list"

record SMCAnalysis =
  trend :: "Trend option"
  bos :: "Trend option"
  ema50 :: "real option"
  ema200 :: "real option"
  rsi_latest :: "real option"
  orderBlocks :: "OrderBlock list"
  fvg :: "FVG list"
  liquidityZones :: LiquidityZones
  atr_latest :: "real option"
  vwap_latest :: "jsnum option"

text \<open>
  \<open>sma\<close>, \<open>ema\<close>, \<open>rsi\<close> and \<open>atr\<close> take the period as the source does; the
  program only calls them with the periods 14, 50 and 200, and the model is
  meant for \<open>period \<ge> 1\<close> (a period of \<open>0\<close> divides by zero in the source).
\<close>

definition sma :: "real list \<Rightarrow> nat \<Rightarrow> real list" where
  "sma data period =
     map (\<lambda>i. sum_list (slice (i + 1 - period) (i + 1) data) / real period)
       [period - 1 ..< length data]"

text \<open>The update loop of \<open>ema\<close>: \<open>i\<close> runs over the remaining values.\<close>

fun ema_loop :: "real \<Rightarrow> real \<Rightarrow> real list \<Rightarrow> real list" where
  "ema_loop multiplier e [] = []"
| "ema_loop multiplier e (x # xs) =
     (let e' = (x - e) * multiplier + e in e' # ema_loop multiplier e' xs)"

definition ema :: "real list \<Rightarrow> nat \<Rightarrow> real list" where
  "ema data period =
     (let multiplier = 2 / (real period + 1);
          e = sum_list (slice 0 period data) / real period
      in e # ema_loop multiplier e (drop period data))"

text \<open>The inner loop of \<open>rsi\<close> over one window: the differences of consecutive
  closes, split into gains and losses.\<close>

definition price_diffs :: "real list \<Rightarrow> real list" where
  "price_diffs w = map (\<lambda>j. w ! j - w ! (j - 1)) [1 ..< length w]"

definition gains_of :: "real list \<Rightarrow> real list" where
  "gains_of w = map (\<lambda>d. if 0 \<le> d then d else 0) (price_diffs w)"

definition losses_of :: "real list \<Rightarrow> real list" where
  "losses_of w = map (\<lambda>d. if 0 \<le> d then 0 else \<bar>d\<bar>) (price_diffs w)"

definition rsi_window :: "real list \<Rightarrow> nat \<Rightarrow> real" where
  "rsi_window w period =
     (let avgGain = sum_list (gains_of w) / real period;
          avgLoss = sum_list (losses_of w) / real period
      in if avgLoss = 0 then 100
         else (let rs = avgGain / avgLoss in 100 - 100 / (1 + rs)))"

definition rsi :: "Candle list \<Rightarrow> nat \<Rightarrow> real list" where
  "rsi candles period =
     (let closes = map close candles
      in map (\<lambda>i. rsi_window (slice (i - period) i closes) period)
           [period ..< length closes])"

text \<open>The true range as \<open>atr\<close> computes it: all three terms are taken from the
  candle itself.\<close>

definition true_range :: "Candle \<Rightarrow> real" where
  "true_range c = max (max (high c - low c) \<bar>high c - close c\<bar>) \<bar>low c - close c\<bar>"

definition atr :: "Candle list \<Rightarrow> nat \<Rightarrow> real list" where
  "atr candles period =
     map (\<lambda>i. sum_list (map (\<lambda>j. true_range (candles ! j)) [i + 1 - period ..< i + 1])
                / real period)
       [period - 1 ..< length candles]"

text \<open>The running sums of \<open>vwap\<close>.\<close>

fun vwap_loop :: "real \<Rightarrow> real \<Rightarrow> Candle list \<Rightarrow> jsnum list" where
  "vwap_loop cumVolPrice cumVol [] = []"
| "vwap_loop cumVolPrice cumVol (c # cs) =
     (let typicalPrice = (high c + low c + close c) / 3;
          cumVolPrice' = cumVolPrice + typicalPrice * volume c;
          cumVol' = cumVol + volume c
      in js_div cumVolPrice' cumVol' # vwap_loop cumVolPrice' cumVol' cs)"

definition vwap :: "Candle list \<Rightarrow> jsnum list" where
  "vwap candles = vwap_loop 0 0 candles"

definition body_size :: "Candle \<Rightarrow> real" where
  "body_size c = \<bar>close c - open c\<bar>"

text \<open>One iteration of the loop of \<open>detectOrderBlocks\<close>, at index \<open>i\<close> with
  \<open>lookback \<le> i < length candles - 2\<close>: the blocks it pushes.\<close>

definition order_blocks_at :: "Candle list \<Rightarrow> nat \<Rightarrow> nat \<Rightarrow> OrderBlock list" where
  "order_blocks_at candles lookback i =
     (let candle = candles ! i;
          nextCandle = candles ! (i + 1);
          nextNextCandle = candles ! (i + 2);
          bodySize = body_size candle;
          avgBody = sum_list (map body_size (slice (i - lookback) i candles)) / real lookback;
          block = (\<lambda>k. \<lparr>ob_index = i, ob_timestamp = timestamp candle, ob_open = open candle,
                         ob_high = high candle, ob_low = low candle, ob_close = close candle,
                         ob_kind = k, strength = js_div bodySize avgBody\<rparr>)
      in (if close candle < open candle \<and> avgBody * 1.5 < bodySize
             \<and> open nextCandle < close nextCandle
             \<and> open nextNextCandle < close nextNextCandle
          then [block Bull] else [])
       @ (if open candle < close candle \<and> avgBody * 1.5 < bodySize
             \<and> close nextCandle < open nextCandle
             \<and> close nextNextCandle < open nextNextCandle
          then [block Bear] else []))"

definition detectOrderBlocks :: "Candle list \<Rightarrow> nat \<Rightarrow> OrderBlock list" where
  "detectOrderBlocks candles lookback =
     concat (map (order_blocks_at candles lookback) [lookback ..< length candles - 2])"

definition fvg_at :: "Candle list \<Rightarrow> nat \<Rightarrow> FVG list" where
  "fvg_at candles i =
     (let prev = candles ! (i - 1);
          next = candles ! (i + 1)
      in (if high prev < low next
          then [\<lparr>fvg_index = i, fvg_from = high prev, fvg_to = low next, fvg_kind = Bull,
                  fvg_gap = low next - high prev\<rparr>]
          else [])
       @ (if high next < low prev
          then [\<lparr>fvg_index = i, fvg_from = high next, fvg_to = low prev, fvg_kind = Bear,
                  fvg_gap = low prev - high next\<rparr>]
          else []))"

definition detectFVG :: "Candle list \<Rightarrow> FVG list" where
  "detectFVG candles = concat (map (fvg_at candles) [1 ..< length candles - 1])"

definition swing_window :: "Candle list \<Rightarrow> nat \<Rightarrow> nat \<Rightarrow> Candle list" where
  "swing_window candles swingPeriod i = slice (i - swingPeriod) (i + swingPeriod + 1) candles"

definition detectLiquidity :: "Candle list \<Rightarrow> nat \<Rightarrow> LiquidityZones" where
  "detectLiquidity candles swingPeriod =
     (let idx = [swingPeriod ..< length candles - swingPeriod];
          isSwingHigh = (\<lambda>i. list_all (\<lambda>c. high c \<le> high (candles ! i))
                                 (swing_window candles swingPeriod i));
          isSwingLow = (\<lambda>i. list_all (\<lambda>c. low (candles ! i) \<le> low c)
                                (swing_window candles swingPeriod i))
      in \<lparr>highs = map (\<lambda>i. \<lparr>price = high (candles ! i), touches = 0, lastTouch = i\<rparr>)
                     (filter isSwingHigh idx),
          lows = map (\<lambda>i. \<lparr>price = low (candles ! i), touches = 0, lastTouch = i\<rparr>)
                    (filter isSwingLow idx)\<rparr>)"

definition getTrend :: "Candle list \<Rightarrow> Trend option" where
  "getTrend candles =
     (if length candles < 200 then None
      else (let closes = map close candles;
                lastSMA50 = last (sma closes 50);
                lastSMA200 = last (sma closes 200)
            in if lastSMA200 < lastSMA50 then Some Up
               else if lastSMA50 < lastSMA200 then Some Down
               else None))"

text \<open>With exactly 50 candles \<open>sma50\<close> has one value and the read of
  \<^verbatim>\<open>sma50[sma50.length - 2]\<close> is \<^verbatim>\<open>undefined\<close>: both comparisons are false.\<close>

definition getBOS :: "Candle list \<Rightarrow> Trend option" where
  "getBOS candles =
     (if length candles < 50 then None
      else (let closes = map close candles;
                sma50 = sma closes 50
            in if length sma50 < 2 then None
               else (let prevSMA50 = sma50 ! (length sma50 - 2);
                         lastSMA50 = sma50 ! (length sma50 - 1)
                     in if prevSMA50 < lastSMA50 then Some Up
                        else if lastSMA50 < prevSMA50 then Some Down
                        else None)))"

definition analyze :: "Candle list \<Rightarrow> SMCAnalysis" where
  "analyze candles =
     (let closes = map close candles;
          ema50Arr = ema closes 50;
          ema200Arr = ema closes 200;
          rsiArr = rsi candles 14;
          atrArr = atr candles 14;
          vwapArr = vwap candles
      in \<lparr>trend = getTrend candles,
          bos = getBOS candles,
          ema50 = last_or_null ema50Arr,
          ema200 = last_or_null ema200Arr,
          rsi_latest = last_or_null rsiArr,
          orderBlocks = detectOrderBlocks candles 10,
          fvg = detectFVG candles,
          liquidityZones = detectLiquidity candles 5,
          atr_latest = last_or_null atrArr,
          vwap_latest = js_last_or_null vwapArr\<rparr>)"

subsection \<open>The true range of the specification\<close>

text \<open>
  The specification's words for ATR(14): the mean, over the trailing 14-bar window,
  of the true range, the maximum of high - low, |high - previous close| and
  |low - previous close|.  \<open>true_range_spec candles j\<close> is that true range of
  candle \<open>j\<close> for \<open>j \<ge> 1\<close>.
\<close>

definition true_range_spec :: "Candle list \<Rightarrow> nat \<Rightarrow> real" where
  "true_range_spec candles j =
     (let c = candles ! j; prevClose = close (candles ! (j - 1))
      in max (max (high c - low c) \<bar>high c - prevClose\<bar>) \<bar>low c - prevClose\<bar>)"

definition atr_spec :: "Candle list \<Rightarrow> nat \<Rightarrow> real" where
  "atr_spec candles i = sum_list (map (true_range_spec candles) [i - 13 ..< i + 1]) / 14"

section \<open>Confluence scorer (class UnifiedScoring)\<close>

text \<open>Modelled from the spec: the type \<open>SMCWeights\<close> is declared in a file that is
  not part of the sources at hand; the specification gives it as a struct with the
  fixed named slots trend_structure, order_blocks, fvgs, ema_alignment, liquidity,
  mtf_bonus and rsi_penalty, which are the fields \<open>calculateConfluence\<close> reads.\<close>

record SMCWeights =
  w_trend_structure :: real
  w_order_blocks :: real
  w_fvgs :: real
  w_ema_alignment :: real
  w_liquidity :: real
  w_mtf_bonus :: real
  w_rsi_penalty :: real

datatype Bias = Bullish | Bearish | Neutral

text \<open>The \<open>breakdown\<close> object: one number per factor.\<close>

record Breakdown =
  trend_structure :: real
  order_blocks :: real
  fvgs :: real
  ema_alignment :: real
  liquidity :: real
  mtf_bonus :: real
  rsi_penalty :: real

text \<open>The result of \<open>calculateConfluence\<close>.  The list \<open>confluence\<close> of
  human-readable reasons is display text built from formatted numbers and is left
  out; \<open>macroScore\<close> is the constant 0.\<close>

record UnifiedScore =
  score :: real
  breakdown :: Breakdown
  bias :: Bias
  macroScore :: real

text \<open>A number-or-null used as a condition: null and \<open>0\<close> are falsy.\<close>

definition truthy :: "real option \<Rightarrow> bool" where
  "truthy v = (case v of None \<Rightarrow> False | Some x \<Rightarrow> x \<noteq> 0)"

definition resolve_bias :: "SMCAnalysis \<Rightarrow> Bias" where
  "resolve_bias analysis =
     (if trend analysis = Some Up \<and> bos analysis = Some Up then Bullish
      else if trend analysis = Some Down \<and> bos analysis = Some Down then Bearish
      else if trend analysis = Some Up \<or> bos analysis = Some Up then Bullish
      else if trend analysis = Some Down \<or> bos analysis = Some Down then Bearish
      else Neutral)"

definition score_trend_structure :: "SMCAnalysis \<Rightarrow> SMCWeights \<Rightarrow> real" where
  "score_trend_structure analysis weights =
     (if trend analysis \<noteq> None \<and> bos analysis \<noteq> None \<and> trend analysis = bos analysis
      then w_trend_structure weights
      else if trend analysis \<noteq> None then w_trend_structure weights * 0.5
      else if bos analysis \<noteq> None then w_trend_structure weights * 0.3
      else 0)"

definition obHigh :: "OrderBlock \<Rightarrow> real" where
  "obHigh ob = max (ob_open ob) (ob_close ob)"

definition obLow :: "OrderBlock \<Rightarrow> real" where
  "obLow ob = min (ob_open ob) (ob_close ob)"

definition score_order_blocks :: "SMCAnalysis \<Rightarrow> real \<Rightarrow> SMCWeights \<Rightarrow> Bias \<Rightarrow> real" where
  "score_order_blocks analysis currentPrice weights b =
     (let relevantOBs = filter (\<lambda>ob. obLow ob * 0.95 \<le> currentPrice
                                  \<and> currentPrice \<le> obHigh ob * 1.05) (orderBlocks analysis);
          bullOBs = filter (\<lambda>ob. ob_kind ob = Bull) relevantOBs;
          bearOBs = filter (\<lambda>ob. ob_kind ob = Bear) relevantOBs
      in if b = Bullish \<and> bullOBs \<noteq> [] then
           (let nearOB = list_ex (\<lambda>ob. js_less (js_div \<bar>currentPrice - obLow ob\<bar> currentPrice) 0.05)
                           bullOBs
            in if nearOB then w_order_blocks weights else w_order_blocks weights * 0.6)
         else if b = Bearish \<and> bearOBs \<noteq> [] then
           (let nearOB = list_ex (\<lambda>ob. js_less (js_div \<bar>currentPrice - obHigh ob\<bar> currentPrice) 0.05)
                           bearOBs
            in if nearOB then w_order_blocks weights else w_order_blocks weights * 0.6)
         else if relevantOBs \<noteq> [] then w_order_blocks weights * 0.3
         else 0)"

definition score_fvgs :: "SMCAnalysis \<Rightarrow> real \<Rightarrow> SMCWeights \<Rightarrow> Bias \<Rightarrow> real" where
  "score_fvgs analysis currentPrice weights b =
     (let relevantFVGs = filter (\<lambda>g. fvg_from g * 0.98 \<le> currentPrice
                                   \<and> currentPrice \<le> fvg_to g * 1.02) (fvg analysis);
          bullFVGs = filter (\<lambda>g. fvg_kind g = Bull) relevantFVGs;
          bearFVGs = filter (\<lambda>g. fvg_kind g = Bear) relevantFVGs
      in if b = Bullish \<and> bullFVGs \<noteq> [] then
           (let nearFVG = list_ex (\<lambda>g. js_less (js_div \<bar>currentPrice - fvg_from g\<bar> currentPrice) 0.03)
                            bullFVGs
            in if nearFVG then w_fvgs weights else w_fvgs weights * 0.5)
         else if b = Bearish \<and> bearFVGs \<noteq> [] then
           (let nearFVG = list_ex (\<lambda>g. js_less (js_div \<bar>currentPrice - fvg_to g\<bar> currentPrice) 0.03)
                            bearFVGs
            in if nearFVG then w_fvgs weights else w_fvgs weights * 0.5)
         else if relevantFVGs \<noteq> [] then w_fvgs weights
         else 0)"

definition score_ema_alignment :: "SMCAnalysis \<Rightarrow> SMCWeights \<Rightarrow> Bias \<Rightarrow> real" where
  "score_ema_alignment analysis weights b =
     (if truthy (ema50 analysis) \<and> truthy (ema200 analysis) then
        (let emaTrend = (if the (ema200 analysis) < the (ema50 analysis) then Bullish else Bearish)
         in if (b = Bullish \<and> emaTrend = Bullish) \<or> (b = Bearish \<and> emaTrend = Bearish)
            then w_ema_alignment weights else - 5)
      else 0)"

definition score_liquidity :: "SMCAnalysis \<Rightarrow> SMCWeights \<Rightarrow> real" where
  "score_liquidity analysis weights =
     (if highs (liquidityZones analysis) \<noteq> [] \<or> lows (liquidityZones analysis) \<noteq> []
      then w_liquidity weights else 0)"

definition score_rsi :: "SMCAnalysis \<Rightarrow> SMCWeights \<Rightarrow> Bias \<Rightarrow> real" where
  "score_rsi analysis weights b =
     (if truthy (rsi_latest analysis) then
        (let r = the (rsi_latest analysis)
         in if 70 < r then w_rsi_penalty weights
            else if r < 30 then
              (if b = Bullish then w_rsi_penalty weights * 0.5 else w_rsi_penalty weights)
            else if 40 \<le> r \<and> r \<le> 60 then 5
            else 0)
      else 0)"

text \<open>Each \<^verbatim>\<open>totalScore += breakdown.x || 0\<close> adds the factor just stored (a
  stored \<open>0\<close> adds \<open>0\<close> either way).\<close>

definition calculateConfluence :: "SMCAnalysis \<Rightarrow> real \<Rightarrow> SMCWeights \<Rightarrow> UnifiedScore" where
  "calculateConfluence analysis currentPrice weights =
     (let b = resolve_bias analysis;
          bd = \<lparr>trend_structure = score_trend_structure analysis weights,
                order_blocks = score_order_blocks analysis currentPrice weights b,
                fvgs = score_fvgs analysis currentPrice weights b,
                ema_alignment = score_ema_alignment analysis weights b,
                liquidity = score_liquidity analysis weights,
                mtf_bonus = w_mtf_bonus weights,
                rsi_penalty = score_rsi analysis weights b\<rparr>;
          totalScore = trend_structure bd + order_blocks bd + fvgs bd + ema_alignment bd
                       + liquidity bd + mtf_bonus bd + rsi_penalty bd
      in \<lparr>score = max 0 totalScore, breakdown = bd, bias = b, macroScore = 0\<rparr>)"

section \<open>Feature extractor (class FeatureExtractor)\<close>

datatype Direction = Long | Short

datatype Trend3 = TrendUp | TrendDown | TrendNeutral

text \<open>The comparisons of \<open>getTrendForPeriod\<close> on
  \<^verbatim>\<open>(lastPrice - firstPrice) / firstPrice * 100\<close>, the quotient being given.\<close>

fun trend_of_change :: "jsnum \<Rightarrow> Trend3" where
  "trend_of_change (Fin q) =
     (if 0.5 < q * 100 then TrendUp else if q * 100 < - 0.5 then TrendDown else TrendNeutral)"
| "trend_of_change PosInf = TrendUp"
| "trend_of_change NegInf = TrendDown"
| "trend_of_change NaN = TrendNeutral"

text \<open>The periods passed are 20, 50 and 100, so that \<open>recentCandles\<close> is not
  empty when the length check passes.\<close>

definition getTrendForPeriod :: "Candle list \<Rightarrow> nat \<Rightarrow> Trend3" where
  "getTrendForPeriod candles period =
     (if length candles < period then TrendNeutral
      else (let recentCandles = slice_last period candles;
                firstPrice = close (hd recentCandles);
                lastPrice = close (last recentCandles)
            in trend_of_change (js_div (lastPrice - firstPrice) firstPrice)))"

text \<open>\<^verbatim>\<open>[a, b, c].filter(Boolean).length\<close>.\<close>

definition count_true :: "bool list \<Rightarrow> nat" where
  "count_true bs = length (filter (\<lambda>b. b) bs)"

definition checkMTFAlignment :: "Trend3 \<Rightarrow> Direction \<Rightarrow> Candle \<Rightarrow> Candle list \<Rightarrow> bool" where
  "checkMTFAlignment trend_dir dir currentCandle historicalCandles =
     (if length historicalCandles < 50 then True
      else (let shortTermTrend = getTrendForPeriod historicalCandles 20;
                mediumTermTrend = getTrendForPeriod historicalCandles 50;
                longTermTrend = getTrendForPeriod historicalCandles 100
            in if dir = Long then
                 (let shortAligned = (shortTermTrend = TrendUp \<or> shortTermTrend = TrendNeutral);
                      mediumAligned = (mediumTermTrend = TrendUp \<or> mediumTermTrend = TrendNeutral);
                      longAligned = (longTermTrend = TrendUp \<or> longTermTrend = TrendNeutral)
                  in 2 \<le> count_true [shortAligned, mediumAligned, longAligned])
               else
                 (let shortAligned = (shortTermTrend = TrendDown \<or> shortTermTrend = TrendNeutral);
                      mediumAligned = (mediumTermTrend = TrendDown \<or> mediumTermTrend = TrendNeutral);
                      longAligned = (longTermTrend = TrendDown \<or> longTermTrend = TrendNeutral)
                  in 2 \<le> count_true [shortAligned, mediumAligned, longAligned])))"

text \<open>A feature record.  Fields of a string-literal union type are datatypes;
  \<open>exit_reason\<close> is a plain string in the source.\<close>

datatype ObType = ObBull | ObBear | ObNone

datatype FvgType = FvgBull | FvgBear | FvgMixed

datatype RsiState = Overbought | Oversold | RsiNeutral

datatype Session = Asian | London | NewYork | Overlap | OffHours

datatype Streak = StreakWin | StreakLoss | StreakNone

datatype Outcome = WIN | LOSS

record TradeFeatures =
  entry_price :: real
  entry_time :: real
  direction :: Direction
  trend_direction :: Trend3
  trend_strength :: real
  trend_bos_aligned :: bool
  ob_near :: bool
  ob_distance :: real
  ob_type :: ObType
  ob_size :: real
  ob_age :: real
  fvg_near :: bool
  fvg_count :: real
  fvg_nearest_distance :: real
  fvg_size :: real
  fvg_type :: FvgType
  ema_aligned :: bool
  ema_trend :: Trend3
  rsi_value :: real
  rsi_state :: RsiState
  liquidity_near :: bool
  liquidity_count :: real
  mtf_aligned :: bool
  volatility :: real
  atr_value :: real
  price_position :: real
  distance_to_high :: real
  distance_to_low :: real
  volume_spike :: bool
  volume_ratio :: real
  confluence_score :: real
  confluence_count :: real
  session :: Session
  days_since_loss :: real
  streak_type :: Streak
  potential_rr :: real
  outcome :: Outcome
  pnl :: real
  pnl_percent :: real
  exit_reason :: string
  holding_periods :: real

section \<open>Trade outcome simulator (BacktestLearnLoop.simulateTrade)\<close>

datatype error = NotTrained | TypeError

record BacktestTrade =
  bt_pnl :: jsnum
  bt_pnl_percent :: jsnum
  bt_outcome :: Outcome
  bt_exit_reason :: string
  bt_holding_periods :: nat

text \<open>\<^verbatim>\<open>c * a\<close> for a finite constant \<open>c > 0\<close>, and \<^verbatim>\<open>a > 0\<close>.\<close>

fun js_times :: "real \<Rightarrow> jsnum \<Rightarrow> jsnum" where
  "js_times c (Fin a) = Fin (c * a)"
| "js_times c NaN = NaN"
| "js_times c PosInf = PosInf"
| "js_times c NegInf = NegInf"

fun js_positive :: "jsnum \<Rightarrow> bool" where
  "js_positive (Fin a) = (0 < a)"
| "js_positive NaN = False"
| "js_positive PosInf = True"
| "js_positive NegInf = False"

text \<open>\<^verbatim>\<open>analysis.atr || (candle.high - candle.low)\<close>.\<close>

definition atr_or_range :: "SMCAnalysis \<Rightarrow> Candle \<Rightarrow> real" where
  "atr_or_range analysis c =
     (if truthy (atr_latest analysis) then the (atr_latest analysis) else high c - low c)"

definition stop_loss :: "bool \<Rightarrow> real \<Rightarrow> real \<Rightarrow> real" where
  "stop_loss isLong entryPrice a = (if isLong then entryPrice - a * 2 else entryPrice + a * 2)"

definition take_profit :: "bool \<Rightarrow> real \<Rightarrow> real \<Rightarrow> real" where
  "take_profit isLong entryPrice stopLoss =
     (let riskDistance = \<bar>entryPrice - stopLoss\<bar>
      in if isLong then entryPrice + riskDistance * 3 else entryPrice - riskDistance * 3)"

text \<open>The candles the loop of \<open>simulateTrade\<close> visits: the indices from
  \<open>startIndex + 1\<close> up to, and excluding, \<open>min (startIndex + 100) (length candles)\<close>.\<close>

definition scanned :: "Candle list \<Rightarrow> nat \<Rightarrow> Candle list" where
  "scanned candles startIndex =
     slice (startIndex + 1) (min (startIndex + 100) (length candles)) candles"

text \<open>The loop: \<open>exitPrice\<close> is the value held when the loop is entered; a
  \<^verbatim>\<open>break\<close> returns the new value at once.\<close>

fun scan_exit :: "bool \<Rightarrow> real \<Rightarrow> real \<Rightarrow> real \<Rightarrow> Candle list \<Rightarrow> real" where
  "scan_exit isLong stopLoss tp2 exitPrice [] = exitPrice"
| "scan_exit isLong stopLoss tp2 exitPrice (candle # rest) =
     (if isLong \<and> low candle \<le> stopLoss then stopLoss
      else if \<not> isLong \<and> stopLoss \<le> high candle then stopLoss
      else if isLong \<and> tp2 \<le> high candle then tp2
      else if \<not> isLong \<and> low candle \<le> tp2 then tp2
      else scan_exit isLong stopLoss tp2 exitPrice rest)"

text \<open>The 100 candles that follow the entry index (fewer at the end of the
  sequence).\<close>

definition following :: "Candle list \<Rightarrow> nat \<Rightarrow> Candle list" where
  "following candles startIndex = slice (startIndex + 1) (startIndex + 101) candles"

text \<open>A candle touches the stop-loss or the take-profit level.\<close>

definition touches :: "bool \<Rightarrow> real \<Rightarrow> real \<Rightarrow> Candle \<Rightarrow> bool" where
  "touches isLong stopLoss tp2 candle =
     (if isLong then low candle \<le> stopLoss \<or> tp2 \<le> high candle
      else stopLoss \<le> high candle \<or> low candle \<le> tp2)"

text \<open>The exit price \<open>simulateTrade\<close> computes P&L from (\<open>startIndex\<close> in range).\<close>

definition exit_price :: "Candle list \<Rightarrow> nat \<Rightarrow> real \<Rightarrow> Direction \<Rightarrow> SMCAnalysis \<Rightarrow> real" where
  "exit_price candles startIndex entryPrice dir analysis =
     (let isLong = (dir = Long);
          a = atr_or_range analysis (candles ! startIndex);
          stopLoss = stop_loss isLong entryPrice a;
          tp2 = take_profit isLong entryPrice stopLoss
      in scan_exit isLong stopLoss tp2 (close (candles ! startIndex)) (scanned candles startIndex))"

text \<open>Reading a field of \<^verbatim>\<open>candles[startIndex]\<close> past the end of the array
  throws a TypeError.\<close>

definition simulateTrade ::
  "Candle list \<Rightarrow> nat \<Rightarrow> real \<Rightarrow> Direction \<Rightarrow> SMCAnalysis \<Rightarrow> error + BacktestTrade" where
  "simulateTrade candles startIndex entryPrice dir analysis =
     (if length candles \<le> startIndex then Inl TypeError
      else (let isLong = (dir = Long);
                a = atr_or_range analysis (candles ! startIndex);
                stopLoss = stop_loss isLong entryPrice a;
                exitPrice = exit_price candles startIndex entryPrice dir analysis;
                priceDiff = (if isLong then exitPrice - entryPrice else entryPrice - exitPrice);
                p = js_times 1000 (js_div priceDiff entryPrice)
            in Inr \<lparr>bt_pnl = p,
                    bt_pnl_percent = js_times 100 (js_div priceDiff entryPrice),
                    bt_outcome = (if js_positive p then WIN else LOSS),
                    bt_exit_reason = (if exitPrice = stopLoss then ''SL'' else ''TP''),
                    bt_holding_periods = 0\<rparr>))"

section \<open>Histogram prediction model (class TradingMLModel)\<close>

text \<open>The value read by \<^verbatim>\<open>t[featureName]\<close>: a number, a boolean or a string.\<close>

datatype fval = Num real | Bool bool | Str string

fun direction_str :: "Direction \<Rightarrow> string" where
  "direction_str Long = ''long''"
| "direction_str Short = ''short''"

fun trend3_str :: "Trend3 \<Rightarrow> string" where
  "trend3_str TrendUp = ''up''"
| "trend3_str TrendDown = ''down''"
| "trend3_str TrendNeutral = ''neutral''"

fun ob_type_str :: "ObType \<Rightarrow> string" where
  "ob_type_str ObBull = ''bull''"
| "ob_type_str ObBear = ''bear''"
| "ob_type_str ObNone = ''none''"

fun fvg_type_str :: "FvgType \<Rightarrow> string" where
  "fvg_type_str FvgBull = ''bull''"
| "fvg_type_str FvgBear = ''bear''"
| "fvg_type_str FvgMixed = ''mixed''"

fun rsi_state_str :: "RsiState \<Rightarrow> string" where
  "rsi_state_str Overbought = ''overbought''"
| "rsi_state_str Oversold = ''oversold''"
| "rsi_state_str RsiNeutral = ''neutral''"

fun session_str :: "Session \<Rightarrow> string" where
  "session_str Asian = ''asian''"
| "session_str London = ''london''"
| "session_str NewYork = ''newyork''"
| "session_str Overlap = ''overlap''"
| "session_str OffHours = ''off-hours''"

fun streak_str :: "Streak \<Rightarrow> string" where
  "streak_str StreakWin = ''win''"
| "streak_str StreakLoss = ''loss''"
| "streak_str StreakNone = ''none''"

fun outcome_str :: "Outcome \<Rightarrow> string" where
  "outcome_str WIN = ''WIN''"
| "outcome_str LOSS = ''LOSS''"

text \<open>The features \<open>train\<close> bins as numbers, in the order of its calls, each with
  the field the name selects.\<close>

definition numeric_features :: "(string \<times> (TradeFeatures \<Rightarrow> real)) list" where
  "numeric_features =
     [(''trend_strength'', trend_strength),
      (''ob_distance'', ob_distance),
      (''ob_size'', ob_size),
      (''ob_age'', ob_age),
      (''fvg_nearest_distance'', fvg_nearest_distance),
      (''fvg_size'', fvg_size),
      (''fvg_count'', fvg_count),
      (''volatility'', volatility),
      (''rsi_value'', rsi_value),
      (''atr_value'', atr_value),
      (''price_position'', price_position),
      (''distance_to_high'', distance_to_high),
      (''distance_to_low'', distance_to_low),
      (''volume_ratio'', volume_ratio),
      (''confluence_score'', confluence_score),
      (''potential_rr'', potential_rr)]"

text \<open>The features \<open>train\<close> bins by value, in the order of its calls.\<close>

definition categorical_features :: "(string \<times> (TradeFeatures \<Rightarrow> fval)) list" where
  "categorical_features =
     [(''trend_direction'', \<lambda>t. Str (trend3_str (trend_direction t))),
      (''trend_bos_aligned'', \<lambda>t. Bool (trend_bos_aligned t)),
      (''ob_near'', \<lambda>t. Bool (ob_near t)),
      (''ob_type'', \<lambda>t. Str (ob_type_str (ob_type t))),
      (''fvg_near'', \<lambda>t. Bool (fvg_near t)),
      (''fvg_type'', \<lambda>t. Str (fvg_type_str (fvg_type t))),
      (''ema_aligned'', \<lambda>t. Bool (ema_aligned t)),
      (''ema_trend'', \<lambda>t. Str (trend3_str (ema_trend t))),
      (''rsi_state'', \<lambda>t. Str (rsi_state_str (rsi_state t))),
      (''liquidity_near'', \<lambda>t. Bool (liquidity_near t)),
      (''mtf_aligned'', \<lambda>t. Bool (mtf_aligned t)),
      (''direction'', \<lambda>t. Str (direction_str (direction t))),
      (''volume_spike'', \<lambda>t. Bool (volume_spike t)),
      (''session'', \<lambda>t. Str (session_str (session t))),
      (''days_since_loss'', \<lambda>t. Num (days_since_loss t)),
      (''streak_type'', \<lambda>t. Str (streak_str (streak_type t)))]"

text \<open>The fields of a feature record that \<open>train\<close> does not bin.\<close>

definition other_fields :: "(string \<times> (TradeFeatures \<Rightarrow> fval)) list" where
  "other_fields =
     [(''entry_price'', \<lambda>t. Num (entry_price t)),
      (''entry_time'', \<lambda>t. Num (entry_time t)),
      (''liquidity_count'', \<lambda>t. Num (liquidity_count t)),
      (''confluence_count'', \<lambda>t. Num (confluence_count t)),
      (''outcome'', \<lambda>t. Str (outcome_str (outcome t))),
      (''pnl'', \<lambda>t. Num (pnl t)),
      (''pnl_percent'', \<lambda>t. Num (pnl_percent t)),
      (''exit_reason'', \<lambda>t. Str (exit_reason t)),
      (''holding_periods'', \<lambda>t. Num (holding_periods t))]"

text \<open>\<^verbatim>\<open>t[featureName]\<close>: \<open>None\<close> stands for \<^verbatim>\<open>undefined\<close>, the value of a
  name that is not a field.\<close>

definition feature_value :: "TradeFeatures \<Rightarrow> string \<Rightarrow> fval option" where
  "feature_value t featureName =
     map_of (map (\<lambda>(n, g). (n, Num (g t))) numeric_features
             @ map (\<lambda>(n, g). (n, g t)) categorical_features
             @ map (\<lambda>(n, g). (n, g t)) other_fields) featureName"

record FeatureBin =
  bin_min :: jsnum
  bin_max :: jsnum
  count :: nat
  wins :: nat
  winRate :: real
  bin_value :: "fval option"

record ModelFeature =
  name :: string
  bins :: "FeatureBin list"
  importance :: real

text \<open>The state of a model.  \<open>features\<close> is a \<^verbatim>\<open>Map\<close>, which iterates in
  insertion order: a list of the entries in that order, the key being \<open>name\<close>.
  \<open>minSampleSize\<close> is initialised to 30 and never assigned.\<close>

record TradingMLModel =
  features :: "ModelFeature list"
  trained :: bool

definition minSampleSize :: nat where
  "minSampleSize = 30"

definition new_model :: TradingMLModel where
  "new_model = \<lparr>features = [], trained = False\<rparr>"

text \<open>\<^verbatim>\<open>features.set(name, f)\<close>: an existing key keeps its place.\<close>

fun features_set :: "ModelFeature \<Rightarrow> ModelFeature list \<Rightarrow> ModelFeature list" where
  "features_set f [] = [f]"
| "features_set f (g # gs) = (if name g = name f then f # gs else g # features_set f gs)"

definition win_count :: "TradeFeatures list \<Rightarrow> nat" where
  "win_count ts = length (filter (\<lambda>t. outcome t = WIN) ts)"

definition win_rate :: "TradeFeatures list \<Rightarrow> real" where
  "win_rate ts = (if 0 < length ts then real (win_count ts) / real (length ts) else 0)"

text \<open>The bin built by iteration \<open>i\<close> of the loop of \<open>binFeature\<close>.\<close>

definition numeric_bin ::
  "(TradeFeatures \<Rightarrow> real) \<Rightarrow> TradeFeatures list \<Rightarrow> real \<Rightarrow> real \<Rightarrow> nat \<Rightarrow> FeatureBin" where
  "numeric_bin get trades minVal binSize i =
     (let binMin = minVal + real i * binSize;
          binMax = minVal + (real i + 1) * binSize;
          tradesInBin = filter (\<lambda>t. binMin \<le> get t \<and> get t < binMax) trades
      in \<lparr>bin_min = Fin binMin, bin_max = Fin binMax, count = length tradesInBin,
          wins = win_count tradesInBin, winRate = win_rate tradesInBin, bin_value = None\<rparr>)"

text \<open>The bins of \<open>binFeature\<close>.  On an empty corpus \<^verbatim>\<open>Math.min()\<close> is
  \<open>Infinity\<close> and \<^verbatim>\<open>Math.max()\<close> is \<open>-Infinity\<close>, which makes every bound \<open>NaN\<close>
  and every bin empty.  The bounds are exact here; the source rounds each of them to a
  double, so that a bound of the source can lie one rounding step off the bound of the
  model (and a value exactly on a bound can fall on its other side) unless the minimum,
  the maximum and the bin width are exact in doubles.\<close>

definition numeric_bins :: "(TradeFeatures \<Rightarrow> real) \<Rightarrow> TradeFeatures list \<Rightarrow> nat \<Rightarrow> FeatureBin list" where
  "numeric_bins get trades numBins =
     (if trades = [] then
        map (\<lambda>i. \<lparr>bin_min = NaN, bin_max = NaN, count = 0, wins = 0, winRate = 0,
                   bin_value = None\<rparr>) [0 ..< numBins]
      else (let vals = map get trades;
                minVal = Min (set vals);
                maxVal = Max (set vals);
                binSize = (maxVal - minVal) / real numBins
            in map (numeric_bin get trades minVal binSize) [0 ..< numBins]))"

text \<open>\<open>binFeature\<close>; the field the name selects is passed with the name.\<close>

definition binFeature ::
  "string \<Rightarrow> (TradeFeatures \<Rightarrow> real) \<Rightarrow> TradeFeatures list \<Rightarrow> nat \<Rightarrow> TradingMLModel \<Rightarrow> TradingMLModel" where
  "binFeature featureName get trades numBins m =
     m\<lparr>features := features_set
          \<lparr>name = featureName, bins = numeric_bins get trades numBins, importance = 0\<rparr>
          (features m)\<rparr>"

text \<open>The elements of \<^verbatim>\<open>new Set(xs)\<close> in iteration order: each value once, at its
  first occurrence.\<close>

fun unique_values :: "'a list \<Rightarrow> 'a list" where
  "unique_values [] = []"
| "unique_values (x # xs) = x # filter (\<lambda>y. y \<noteq> x) (unique_values xs)"

definition categorical_bin :: "(TradeFeatures \<Rightarrow> fval) \<Rightarrow> TradeFeatures list \<Rightarrow> fval \<Rightarrow> FeatureBin" where
  "categorical_bin get trades v =
     (let tradesWithValue = filter (\<lambda>t. get t = v) trades
      in \<lparr>bin_min = Fin 0, bin_max = Fin 0, count = length tradesWithValue,
          wins = win_count tradesWithValue, winRate = win_rate tradesWithValue,
          bin_value = Some v\<rparr>)"

definition binCategorical ::
  "string \<Rightarrow> (TradeFeatures \<Rightarrow> fval) \<Rightarrow> TradeFeatures list \<Rightarrow> TradingMLModel \<Rightarrow> TradingMLModel" where
  "binCategorical featureName get trades m =
     m\<lparr>features := features_set
          \<lparr>name = featureName,
           bins = map (categorical_bin get trades) (unique_values (map get trades)),
           importance = 0\<rparr>
          (features m)\<rparr>"

definition importance_of :: "FeatureBin list \<Rightarrow> real" where
  "importance_of bs =
     (let winRates = map winRate (filter (\<lambda>b. minSampleSize \<le> count b) bs)
      in if length winRates < 2 then 0
         else (let mean = sum_list winRates / real (length winRates);
                   variance = sum_list (map (\<lambda>r. (r - mean)\<^sup>2) winRates)
                              / real (length winRates)
               in min (variance * 10) 1))"

definition calculateFeatureImportance :: "TradingMLModel \<Rightarrow> TradingMLModel" where
  "calculateFeatureImportance m =
     m\<lparr>features := map (\<lambda>f. f\<lparr>importance := importance_of (bins f)\<rparr>) (features m)\<rparr>"

text \<open>\<open>train\<close>: the calls of \<open>binFeature\<close> and \<open>binCategorical\<close> in the order of
  the source, each with 10 bins, on the cleared map.  Console output is not
  modelled.\<close>

definition train :: "TradeFeatures list \<Rightarrow> TradingMLModel \<Rightarrow> TradingMLModel" where
  "train trades m =
     (let m0 = m\<lparr>features := []\<rparr>;
          m1 = fold (\<lambda>(n, g). binFeature n g trades 10) numeric_features m0;
          m2 = fold (\<lambda>(n, g). binCategorical n g trades) categorical_features m1;
          m3 = calculateFeatureImportance m2
      in m3\<lparr>trained := True\<rparr>)"

record ScoredFeature =
  sf_feature :: string
  sf_score :: real
  sf_winRate :: real

text \<open>The test of the inner loop of \<open>predict\<close>: whether a bin matches the value
  read from the record.\<close>

fun bin_matches :: "fval option \<Rightarrow> FeatureBin \<Rightarrow> bool" where
  "bin_matches (Some (Num x)) b = (js_ge x (bin_min b) \<and> js_lt x (bin_max b))"
| "bin_matches v b = (0 < count b \<and> bin_value b = v)"

definition score_feature :: "TradeFeatures \<Rightarrow> ModelFeature \<Rightarrow> ScoredFeature" where
  "score_feature t modelFeature =
     (let featureValue = feature_value t (name modelFeature);
          hit = find (bin_matches featureValue) (bins modelFeature);
          binWinRate = (case hit of None \<Rightarrow> 0.5 | Some b \<Rightarrow> winRate b);
          binCount = (case hit of None \<Rightarrow> 0 | Some b \<Rightarrow> count b);
          sampleWeight = min (real binCount / real minSampleSize) 1
      in \<lparr>sf_feature = name modelFeature,
          sf_score = binWinRate * importance modelFeature * sampleWeight,
          sf_winRate = binWinRate\<rparr>)"

text \<open>The ten entries with the highest score; the sort is stable.\<close>

definition topFeatures :: "TradingMLModel \<Rightarrow> TradeFeatures \<Rightarrow> ScoredFeature list" where
  "topFeatures m t =
     take 10 (sort_key (\<lambda>f. - sf_score f) (map (score_feature t) (features m)))"

text \<open>The result of \<open>predict\<close>; the display string \<open>reason\<close> is left out.\<close>

record Prediction =
  winProbability :: real
  confidence :: jsnum
  keyFeatures :: "string list"

definition totalSamples :: "ScoredFeature list \<Rightarrow> jsnum" where
  "totalSamples fs =
     foldl (\<lambda>sum f. js_add sum (js_min (js_div (sf_score f) (sf_winRate f)) 100)) (Fin 0) fs"

definition predict :: "TradingMLModel \<Rightarrow> TradeFeatures \<Rightarrow> error + Prediction" where
  "predict m t =
     (if \<not> trained m then Inl NotTrained
      else (let top = topFeatures m t;
                totalWeight = sum_list (map sf_score top);
                weightedSum = sum_list (map (\<lambda>f. sf_score f * sf_winRate f) top)
            in Inr \<lparr>winProbability = (if 0 < totalWeight then weightedSum / totalWeight else 0.5),
                    confidence = js_min (js_scale (totalSamples top) 1000) 1,
                    keyFeatures = map sf_feature (take 5 top)\<rparr>))"

section \<open>Backtest-learn loop (class BacktestLearnLoop)\<close>

text \<open>The learning-loop settings of \<open>CONFIG\<close> (the other entries name symbols,
  time frames, directories and the worker count of the extraction phase).\<close>

record Config =
  maxIterations :: nat
  minAccuracyImprovement :: real
  trainTestSplit :: real
  errorEmphasisMultiplier :: nat

definition CONFIG :: Config where
  "CONFIG = \<lparr>maxIterations = 10, minAccuracyImprovement = 0.005, trainTestSplit = 0.7,
             errorEmphasisMultiplier = 3\<rparr>"

record LoopIteration =
  iteration :: nat
  tradesExtracted :: nat
  trainAccuracy :: jsnum
  testAccuracy :: jsnum
  predictionErrors :: nat
  improvementFromLast :: jsnum

text \<open>The variables the loop of \<open>run\<close> carries from one iteration to the next.\<close>

record LoopState =
  model :: TradingMLModel
  trainingData :: "TradeFeatures list"
  lastAccuracy :: jsnum
  iterations :: "LoopIteration list"

text \<open>The loop of \<open>evaluateModel\<close>; an exception of \<open>predict\<close> ends it.\<close>

fun evaluate_loop ::
  "TradingMLModel \<Rightarrow> TradeFeatures list \<Rightarrow> nat \<Rightarrow> TradeFeatures list
     \<Rightarrow> error + (nat \<times> TradeFeatures list)" where
  "evaluate_loop m [] correct errors = Inr (correct, errors)"
| "evaluate_loop m (trade # rest) correct errors =
     (case predict m trade of
        Inl e \<Rightarrow> Inl e
      | Inr prediction \<Rightarrow>
          (let predictedWin = (0.5 \<le> winProbability prediction);
               actualWin = (outcome trade = WIN)
           in if predictedWin = actualWin
              then evaluate_loop m rest (correct + 1) errors
              else evaluate_loop m rest correct (errors @ [trade])))"

text \<open>\<open>evaluateModel\<close>: the accuracy (\<open>NaN\<close> on an empty list) and the
  misclassified records.\<close>

definition evaluateModel ::
  "TradingMLModel \<Rightarrow> TradeFeatures list \<Rightarrow> error + (jsnum \<times> TradeFeatures list)" where
  "evaluateModel m trades =
     (case evaluate_loop m trades 0 [] of
        Inl e \<Rightarrow> Inl e
      | Inr (correct, errors) \<Rightarrow> Inr (js_div (real correct) (real (length trades)), errors))"

text \<open>What one iteration measures.\<close>

record Measured =
  trained_model :: TradingMLModel
  train_accuracy :: jsnum
  test_accuracy :: jsnum
  test_errors :: "TradeFeatures list"

text \<open>
  The first half of the loop body: shuffle, split, train, evaluate.  The shuffle
  sorts with a random comparator; its result is given by the parameter \<open>shuffle\<close>,
  a function of the iteration number and the list, about which nothing is assumed.
  The split index is \<open>\<lfloor>length * trainTestSplit\<rfloor>\<close>, for a ratio in \<open>[0, 1]\<close>; the
  product is exact here, while the source rounds it to a double before taking the
  floor, which can give an index smaller by one (230 instead of 231 for 330 records at
  0.7).
\<close>

definition measure_iteration ::
  "Config \<Rightarrow> (nat \<Rightarrow> TradeFeatures list \<Rightarrow> TradeFeatures list) \<Rightarrow> nat \<Rightarrow> LoopState
     \<Rightarrow> error + Measured" where
  "measure_iteration cfg shuffle i st =
     (let shuffled = shuffle i (trainingData st);
          splitIdx = nat \<lfloor>real (length shuffled) * trainTestSplit cfg\<rfloor>;
          trainSet = slice 0 splitIdx shuffled;
          testSet = drop splitIdx shuffled;
          m = train trainSet (model st)
      in case evaluateModel m testSet of
           Inl e \<Rightarrow> Inl e
         | Inr (testAcc, errors) \<Rightarrow>
             (case evaluateModel m trainSet of
                Inl e \<Rightarrow> Inl e
              | Inr (trainAcc, _) \<Rightarrow>
                  Inr \<lparr>trained_model = m, train_accuracy = trainAcc, test_accuracy = testAcc,
                       test_errors = errors\<rparr>))"

text \<open>The record pushed to \<open>iterations\<close>.\<close>

definition iteration_record :: "nat \<Rightarrow> LoopState \<Rightarrow> Measured \<Rightarrow> LoopIteration" where
  "iteration_record i st r =
     \<lparr>iteration = i,
      tradesExtracted = length (trainingData st),
      trainAccuracy = train_accuracy r,
      testAccuracy = test_accuracy r,
      predictionErrors = length (test_errors r),
      improvementFromLast = js_sub (test_accuracy r) (lastAccuracy st)\<rparr>"

text \<open>The error-emphasis step: \<open>errorEmphasisMultiplier - 1\<close> copies of the
  misclassified records are appended (none when the multiplier is 0 or 1).\<close>

definition emphasize :: "Config \<Rightarrow> TradeFeatures list \<Rightarrow> TradeFeatures list \<Rightarrow> TradeFeatures list" where
  "emphasize cfg errors pool = pool @ concat (replicate (errorEmphasisMultiplier cfg - 1) errors)"

text \<open>The loop \<^verbatim>\<open>for (let i = 1; i <= CONFIG.maxIterations; i++)\<close> of \<open>run\<close>, from
  iteration \<open>i\<close> in state \<open>st\<close>, to the state it ends in.\<close>

function run_loop ::
  "Config \<Rightarrow> (nat \<Rightarrow> TradeFeatures list \<Rightarrow> TradeFeatures list) \<Rightarrow> nat \<Rightarrow> LoopState
     \<Rightarrow> error + LoopState" where
  "run_loop cfg shuffle i st =
     (if i \<le> maxIterations cfg then
        (case measure_iteration cfg shuffle i st of
           Inl e \<Rightarrow> Inl e
         | Inr r \<Rightarrow>
             (let improvement = js_sub (test_accuracy r) (lastAccuracy st);
                  st1 = st\<lparr>model := trained_model r,
                          iterations := iterations st @ [iteration_record i st r]\<rparr>
              in if 1 < i \<and> js_less improvement (minAccuracyImprovement cfg) then Inr st1
                 else (let st2 = (if i < maxIterations cfg
                                  then st1\<lparr>trainingData := emphasize cfg (test_errors r) (trainingData st1)\<rparr>
                                  else st1)
                       in run_loop cfg shuffle (i + 1) (st2\<lparr>lastAccuracy := test_accuracy r\<rparr>))))
      else Inr st)"
  by pat_completeness auto
termination
  by (relation "measure (\<lambda>(cfg, shuffle, i, st). maxIterations cfg + 1 - i)") auto

declare run_loop.simps [simp del]

datatype RunResult = NotEnoughTrades | Completed LoopState

text \<open>\<open>run\<close> after the extraction phase, which has filled \<open>allTrades\<close>: the
  check of the corpus size, then the loop.  Saving the results is not modelled.\<close>

definition run ::
  "Config \<Rightarrow> (nat \<Rightarrow> TradeFeatures list \<Rightarrow> TradeFeatures list) \<Rightarrow> TradeFeatures list
     \<Rightarrow> TradingMLModel \<Rightarrow> error + RunResult" where
  "run cfg shuffle allTrades m =
     (if length allTrades < 200 then Inr NotEnoughTrades
      else (case run_loop cfg shuffle 1
                   \<lparr>model = m, trainingData = allTrades, lastAccuracy = Fin 0, iterations = []\<rparr> of
              Inl e \<Rightarrow> Inl e
            | Inr st \<Rightarrow> Inr (Completed st)))"

section \<open>Concrete inputs\<close>

text \<open>A candle whose four prices are all \<open>p\<close>.\<close>

definition bar :: "real \<Rightarrow> Candle" where
  "bar p = \<lparr>timestamp = 0, open = p, high = p, low = p, close = p, volume = 1\<rparr>"

text \<open>49 candles, each closing 10 below the one before.\<close>

definition falling49 :: "Candle list" where
  "falling49 = map (\<lambda>k. bar (1000 - 10 * real k)) [0 ..< 49]"

text \<open>An analysis whose trend is up and whose break of structure is down, with
  nothing else known, and the weights the extraction phase passes.\<close>

definition disagreeing :: SMCAnalysis where
  "disagreeing =
     \<lparr>trend = Some Up, bos = Some Down, ema50 = None, ema200 = None, rsi_latest = None,
      orderBlocks = [], fvg = [], liquidityZones = \<lparr>highs = [], lows = []\<rparr>,
      atr_latest = None, vwap_latest = None\<rparr>"

definition default_weights :: SMCWeights where
  "default_weights =
     \<lparr>w_trend_structure = 40, w_order_blocks = 30, w_fvgs = 20, w_ema_alignment = 15,
      w_liquidity = 10, w_mtf_bonus = 35, w_rsi_penalty = 15\<rparr>"

text \<open>A feature record of a winning long trade.\<close>

definition sample_trade :: TradeFeatures where
  "sample_trade =
     \<lparr>entry_price = 100, entry_time = 0, direction = Long, trend_direction = TrendUp,
      trend_strength = 0, trend_bos_aligned = True, ob_near = False, ob_distance = 1,
      ob_type = ObNone, ob_size = 0, ob_age = 0, fvg_near = False, fvg_count = 0,
      fvg_nearest_distance = 1, fvg_size = 0, fvg_type = FvgMixed, ema_aligned = True,
      ema_trend = TrendUp, rsi_value = 50, rsi_state = RsiNeutral, liquidity_near = False,
      liquidity_count = 0, mtf_aligned = True, volatility = 0, atr_value = 1,
      price_position = 0, distance_to_high = 0, distance_to_low = 0, volume_spike = False,
      volume_ratio = 1, confluence_score = 0, confluence_count = 0, session = Asian,
      days_since_loss = 0, streak_type = StreakNone, potential_rr = 2, outcome = WIN,
      pnl = 10, pnl_percent = 1, exit_reason = ''TP'', holding_periods = 0\<rparr>"

text \<open>15 candles of range 2 around a close that rises by 2 from candle to candle,
  so that every candle opens a gap above the close before it.\<close>

definition gapping15 :: "Candle list" where
  "gapping15 =
     map (\<lambda>k. \<lparr>timestamp = real k, open = 10 + 2 * real k, high = 11 + 2 * real k,
               low = 9 + 2 * real k, close = 10 + 2 * real k, volume = 1\<rparr>) [0 ..< 15]"

text \<open>15 candles, each closing 10 below the one before.\<close>

definition falling15 :: "Candle list" where
  "falling15 = map (\<lambda>k. bar (1000 - 10 * real k)) [0 ..< 15]"

text \<open>15 candles, each closing 10 above the one before.\<close>

definition rising15 :: "Candle list" where
  "rising15 = map (\<lambda>k. bar (1000 + 10 * real k)) [0 ..< 15]"

text \<open>An entry candle closing at 100, followed by 100 candles that stay between 104
  and 106, and an analysis whose ATR is 10.\<close>

definition quiet101 :: "Candle list" where
  "quiet101 =
     \<lparr>timestamp = 0, open = 100, high = 101, low = 99, close = 100, volume = 1\<rparr>
     # replicate 100 \<lparr>timestamp = 1, open = 105, high = 106, low = 104, close = 105, volume = 1\<rparr>"

definition atr10 :: SMCAnalysis where
  "atr10 = disagreeing\<lparr>atr_latest := Some 10\<rparr>"

text \<open>A corpus of two trades whose order blocks are 0 and 100 candles old.\<close>

definition young_old :: "TradeFeatures list" where
  "young_old = [sample_trade\<lparr>ob_age := 0\<rparr>, sample_trade\<lparr>ob_age := 100\<rparr>]"

section \<open>Auxiliary definitions\<close>

text \<open>The map entries \<open>binFeature\<close> and \<open>binCategorical\<close> store for a feature,
  given with its name.\<close>

definition numeric_entry :: "TradeFeatures list \<Rightarrow> string \<times> (TradeFeatures \<Rightarrow> real) \<Rightarrow> ModelFeature" where
  "numeric_entry trades e = \<lparr>name = fst e, bins = numeric_bins (snd e) trades 10, importance = 0\<rparr>"

definition categorical_entry :: "TradeFeatures list \<Rightarrow> string \<times> (TradeFeatures \<Rightarrow> fval) \<Rightarrow> ModelFeature" where
  "categorical_entry trades e =
     \<lparr>name = fst e, bins = map (categorical_bin (snd e) trades) (unique_values (map (snd e) trades)),
      importance = 0\<rparr>"

section \<open>A run of the loop\<close>

text \<open>A shuffle that leaves the order as it is; the model trained on one winning
  trade; the state in which the loop starts on a pool of two copies of that trade, and
  the state at the start of the second iteration.\<close>

definition keep_order :: "nat \<Rightarrow> TradeFeatures list \<Rightarrow> TradeFeatures list" where
  "keep_order i ts = ts"

definition single_trained :: TradingMLModel where
  "single_trained = train [sample_trade] new_model"

definition two_wins :: LoopState where
  "two_wins =
     \<lparr>model = new_model, trainingData = [sample_trade, sample_trade], lastAccuracy = Fin 0,
      iterations = []\<rparr>"

definition after_first :: LoopState where
  "after_first =
     \<lparr>model = single_trained, trainingData = [sample_trade, sample_trade], lastAccuracy = Fin 1,
      iterations = [\<lparr>iteration = 1, tradesExtracted = 2, trainAccuracy = Fin 1,
                     testAccuracy = Fin 1, predictionErrors = 0, improvementFromLast = Fin 1\<rparr>]\<rparr>"

text \<open>A corpus of 30 winning long trades and 30 losing short trades that differ in
  nothing else.\<close>

definition losing_short :: TradeFeatures where
  "losing_short = sample_trade\<lparr>direction := Short, outcome := LOSS\<rparr>"

definition sixty :: "TradeFeatures list" where
  "sixty = replicate 30 sample_trade @ replicate 30 losing_short"

section \<open>Properties\<close>

subsection \<open>Feature extractor\<close>

text \<open>
  Claim C8.  Whenever the multi-timeframe alignment check is called with fewer than
  50 historical candles it answers true, whatever the trend direction, the trade
  direction and the current candle are: the default on insufficient data is
  permissive.
\<close>

theorem mtf_aligned_insufficient_data:
  "length historicalCandles < 50 \<Longrightarrow>
     checkMTFAlignment trend_dir dir currentCandle historicalCandles = True"
  by (simp add: checkMTFAlignment_def)

text \<open>A long trade on 49 candles that fall by one percent each: still aligned.\<close>

theorem mtf_aligned_insufficient_data_witness:
  "length falling49 < 50 \<and> checkMTFAlignment TrendDown Long (bar 520) falling49 = True"
  using mtf_aligned_insufficient_data [of falling49 TrendDown Long "bar 520"]
  by (simp add: falling49_def)

subsection \<open>Confluence scorer\<close>

text \<open>
  Claim C4 as stated gives zero when trend and break of structure are both known
  and disagree.  The scorer gives half the weight there: with trend up, break of
  structure down and a weight of 40 the contribution is 20.
\<close>

theorem trend_structure_disagreement_counterexample:
  "trend disagreeing = Some Up \<and> bos disagreeing = Some Down \<and>
   trend_structure (breakdown (calculateConfluence disagreeing 100 default_weights)) = 20"
  by (simp add: calculateConfluence_def score_trend_structure_def disagreeing_def
      default_weights_def Let_def)

text \<open>
  Claim C4, amended.  The trend/structure contribution of the confluence scorer is
  the full trend_structure weight when trend and break of structure are both known
  and agree; half the weight whenever the trend is known and the break of structure
  does not agree with it (it is unknown, or known and different); 30% of the weight
  when the trend is unknown and the break of structure is known; and zero when
  both are unknown.
\<close>

theorem trend_structure_contribution:
  "(\<forall>d. trend a = Some d \<and> bos a = Some d \<longrightarrow>
        trend_structure (breakdown (calculateConfluence a p w)) = w_trend_structure w) \<and>
   (trend a \<noteq> None \<and> bos a \<noteq> trend a \<longrightarrow>
        trend_structure (breakdown (calculateConfluence a p w)) = w_trend_structure w * 0.5) \<and>
   (trend a = None \<and> bos a \<noteq> None \<longrightarrow>
        trend_structure (breakdown (calculateConfluence a p w)) = w_trend_structure w * 0.3) \<and>
   (trend a = None \<and> bos a = None \<longrightarrow>
        trend_structure (breakdown (calculateConfluence a p w)) = 0)"
  by (auto simp add: calculateConfluence_def score_trend_structure_def Let_def)

theorem trend_structure_contribution_witness:
  "trend disagreeing \<noteq> None \<and> bos disagreeing \<noteq> trend disagreeing \<and>
   trend_structure (breakdown (calculateConfluence disagreeing 100 default_weights))
     = w_trend_structure default_weights * 0.5"
  using trend_structure_contribution [of disagreeing 100 default_weights]
  by (simp add: disagreeing_def)

subsection \<open>Prediction before training\<close>

text \<open>
  Claim C5.  On a model whose \<open>trained\<close> flag is not set, which is the state of a
  model on which \<open>train\<close> has never been called (the flag starts false and only
  \<open>train\<close> sets it), \<open>predict\<close> raises the NotTrained error for every feature
  record; it returns no prediction, hence no default probability.
\<close>

theorem predict_before_train:
  "\<not> trained m \<Longrightarrow> predict m t = Inl NotTrained"
  by (simp add: predict_def)

theorem predict_before_train_witness:
  "\<not> trained new_model \<and> predict new_model sample_trade = Inl NotTrained"
  using predict_before_train [of new_model sample_trade]
  by (simp add: new_model_def)

subsection \<open>Indicator engine\<close>

text \<open>
  Claim C2 says that ATR(14) is the mean over the trailing 14 bars of the true range
  taken against the previous candle's close.  The function \<open>atr\<close> takes both
  absolute differences against the close of the candle itself.  On 15 candles of
  range 2 whose close rises by 2 per candle, at the last index, the code yields 2
  where the true range of the claim yields 3.
\<close>

theorem atr_ignores_previous_close:
  "atr gapping15 14 ! 1 = 2 \<and> atr_spec gapping15 14 = 3"
  by (simp add: atr_def atr_spec_def true_range_def true_range_spec_def gapping15_def Let_def
      upt_conv_Cons)

text \<open>Sums over a window.\<close>

lemma sum_list_map_zero:
  "list_all (\<lambda>j. h j = (0::real)) js \<Longrightarrow> sum_list (map h js) = 0"
  by (induction js) auto

lemma sum_list_map_pos:
  "js \<noteq> [] \<Longrightarrow> list_all (\<lambda>j. (0::real) < h j) js \<Longrightarrow> 0 < sum_list (map h js)"
proof (induction js)
  case Nil
  then show ?case by simp
next
  case (Cons j js)
  then show ?case by (cases "js = []") (auto intro: add_pos_pos)
qed

lemma gains_nonneg: "0 \<le> sum_list (gains_of w)"
  by (auto simp add: gains_of_def intro!: sum_list_nonneg)

lemma losses_nonneg: "0 \<le> sum_list (losses_of w)"
  by (auto simp add: losses_of_def intro!: sum_list_nonneg)

lemma rsi_window_range:
  assumes "0 < period"
  shows "0 \<le> rsi_window w period \<and> rsi_window w period \<le> 100"
proof (cases "sum_list (losses_of w) / real period = 0")
  case True
  then show ?thesis by (simp add: rsi_window_def)
next
  case False
  define g where "g = sum_list (gains_of w) / real period"
  define l where "l = sum_list (losses_of w) / real period"
  have g: "0 \<le> g" using gains_nonneg [of w] assms by (simp add: g_def)
  have "0 \<le> l" using losses_nonneg [of w] assms by (simp add: l_def)
  moreover have "l \<noteq> 0" using False by (simp add: l_def)
  ultimately have l: "0 < l" by simp
  have rs: "0 \<le> g / l" using g l by simp
  then have one: "1 \<le> 1 + g / l" by simp
  then have "0 < 100 / (1 + g / l)" by simp
  moreover have "100 / (1 + g / l) \<le> 100 / 1"
    by (rule divide_left_mono) (use one in auto)
  moreover have "rsi_window w period = 100 - 100 / (1 + g / l)"
    using False by (simp add: rsi_window_def g_def l_def Let_def)
  ultimately show ?thesis by simp
qed

lemma rsi_window_no_loss:
  "sum_list (losses_of w) / real period = 0 \<Longrightarrow> rsi_window w period = 100"
  by (simp add: rsi_window_def)

lemma rsi_window_no_gain:
  "sum_list (gains_of w) / real period = 0 \<Longrightarrow> sum_list (losses_of w) / real period \<noteq> 0
     \<Longrightarrow> rsi_window w period = 0"
  by (simp add: rsi_window_def Let_def)

lemma all_gains_no_loss:
  "list_all (\<lambda>j. w ! (j - 1) \<le> w ! j) [1 ..< length w] \<Longrightarrow> sum_list (losses_of w) = 0"
  unfolding losses_of_def price_diffs_def map_map comp_def
  by (rule sum_list_map_zero) (auto simp add: list_all_iff)

lemma all_losses_no_gain:
  "list_all (\<lambda>j. w ! j < w ! (j - 1)) [1 ..< length w] \<Longrightarrow> sum_list (gains_of w) = 0"
  unfolding gains_of_def price_diffs_def map_map comp_def
  by (rule sum_list_map_zero) (auto simp add: list_all_iff)

lemma all_losses_some_loss:
  "2 \<le> length w \<Longrightarrow> list_all (\<lambda>j. w ! j < w ! (j - 1)) [1 ..< length w]
     \<Longrightarrow> 0 < sum_list (losses_of w)"
  unfolding losses_of_def price_diffs_def map_map comp_def
  by (rule sum_list_map_pos) (auto simp add: list_all_iff)

lemma rsi_length: "length (rsi candles period) = length candles - period"
  by (simp add: rsi_def)

lemma rsi_nth:
  "k < length candles - period \<Longrightarrow>
     rsi candles period ! k = rsi_window (slice k (k + period) (map close candles)) period"
  by (simp add: rsi_def Let_def add.commute)

text \<open>
  Claim C6.  On at least 15 candles RSI(14) produces at least one value and every
  value lies in [0, 100].  The value of a window whose average loss is zero is
  exactly 100, in particular when no close of the window is below the one before
  (all gains); the value of a window whose average gain is zero and whose average
  loss is not is exactly 0, in particular when every close of the window is below
  the one before (all losses).  The window of the value at position \<open>k\<close> is the 14
  closes from index \<open>k\<close> on.
\<close>

theorem rsi_range_and_extremes:
  assumes "15 \<le> length candles"
  shows "rsi candles 14 \<noteq> [] \<and>
    list_all (\<lambda>v. 0 \<le> v \<and> v \<le> 100) (rsi candles 14) \<and>
    (\<forall>k < length (rsi candles 14).
       let w = slice k (k + 14) (map close candles); v = rsi candles 14 ! k in
         (sum_list (losses_of w) / 14 = 0 \<longrightarrow> v = 100) \<and>
         (list_all (\<lambda>j. w ! (j - 1) \<le> w ! j) [1 ..< length w] \<longrightarrow> v = 100) \<and>
         (sum_list (gains_of w) / 14 = 0 \<and> sum_list (losses_of w) / 14 \<noteq> 0 \<longrightarrow> v = 0) \<and>
         (list_all (\<lambda>j. w ! j < w ! (j - 1)) [1 ..< length w] \<longrightarrow> v = 0))"
proof (intro conjI allI impI)
  show "rsi candles 14 \<noteq> []"
  proof
    assume "rsi candles 14 = []"
    then have "length (rsi candles 14) = 0" by simp
    with assms show False by (simp add: rsi_length)
  qed
  show "list_all (\<lambda>v. 0 \<le> v \<and> v \<le> 100) (rsi candles 14)"
    by (simp add: rsi_def Let_def list_all_iff rsi_window_range)
next
  fix k assume k: "k < length (rsi candles 14)"
  then have k': "k < length candles - 14" by (simp add: rsi_length)
  define w where "w = slice k (k + 14) (map close candles)"
  have v: "rsi candles 14 ! k = rsi_window w 14"
    using rsi_nth [OF k'] by (simp add: w_def)
  have len: "length w = 14" using k' by (simp add: w_def slice_def)
  have "(sum_list (losses_of w) / 14 = 0 \<longrightarrow> rsi_window w 14 = 100) \<and>
        (list_all (\<lambda>j. w ! (j - 1) \<le> w ! j) [1 ..< length w] \<longrightarrow> rsi_window w 14 = 100) \<and>
        (sum_list (gains_of w) / 14 = 0 \<and> sum_list (losses_of w) / 14 \<noteq> 0 \<longrightarrow> rsi_window w 14 = 0) \<and>
        (list_all (\<lambda>j. w ! j < w ! (j - 1)) [1 ..< length w] \<longrightarrow> rsi_window w 14 = 0)"
    using rsi_window_no_loss [of w 14] rsi_window_no_gain [of w 14]
      all_gains_no_loss [of w] all_losses_no_gain [of w] all_losses_some_loss [of w] len
    by auto
  then show "let w = slice k (k + 14) (map close candles); v = rsi candles 14 ! k in
         (sum_list (losses_of w) / 14 = 0 \<longrightarrow> v = 100) \<and>
         (list_all (\<lambda>j. w ! (j - 1) \<le> w ! j) [1 ..< length w] \<longrightarrow> v = 100) \<and>
         (sum_list (gains_of w) / 14 = 0 \<and> sum_list (losses_of w) / 14 \<noteq> 0 \<longrightarrow> v = 0) \<and>
         (list_all (\<lambda>j. w ! j < w ! (j - 1)) [1 ..< length w] \<longrightarrow> v = 0)"
    unfolding Let_def v w_def [symmetric] by simp
qed

text \<open>Fifteen falling closes give the value 0, fifteen rising closes the value 100.\<close>

theorem rsi_range_and_extremes_witness:
  "15 \<le> length falling15 \<and> 15 \<le> length rising15 \<and>
   list_all (\<lambda>v. 0 \<le> v \<and> v \<le> 100) (rsi falling15 14) \<and>
   list_all (\<lambda>j. slice 0 14 (map close falling15) ! j < slice 0 14 (map close falling15) ! (j - 1))
     [1 ..< 14] \<and>
   rsi falling15 14 ! 0 = 0 \<and>
   list_all (\<lambda>j. slice 0 14 (map close rising15) ! (j - 1) \<le> slice 0 14 (map close rising15) ! j)
     [1 ..< 14] \<and>
   rsi rising15 14 ! 0 = 100"
proof -
  have f: "15 \<le> length falling15" and r: "15 \<le> length rising15"
    by (simp_all add: falling15_def rising15_def)
  have wf: "slice 0 14 (map close falling15) = map (\<lambda>k. 1000 - 10 * real k) [0 ..< 14]"
    by (simp add: slice_def falling15_def bar_def upt_conv_Cons)
  have wr: "slice 0 14 (map close rising15) = map (\<lambda>k. 1000 + 10 * real k) [0 ..< 14]"
    by (simp add: slice_def rising15_def bar_def upt_conv_Cons)
  have lf: "list_all (\<lambda>j. slice 0 14 (map close falling15) ! j < slice 0 14 (map close falling15) ! (j - 1))
     [1 ..< 14]"
    unfolding wf by (simp add: upt_conv_Cons)
  have lr: "list_all (\<lambda>j. slice 0 14 (map close rising15) ! (j - 1) \<le> slice 0 14 (map close rising15) ! j)
     [1 ..< 14]"
    unfolding wr by (simp add: upt_conv_Cons)
  have nf: "0 < length (rsi falling15 14)" and nr: "0 < length (rsi rising15 14)"
    by (simp_all add: rsi_def falling15_def rising15_def)
  have lenf: "length (slice 0 14 (map close falling15)) = 14" unfolding wf by simp
  have lenr: "length (slice 0 14 (map close rising15)) = 14" unfolding wr by simp
  from rsi_range_and_extremes [OF f] rsi_range_and_extremes [OF r] nf nr lf lr lenf lenr f r
  show ?thesis by (simp add: Let_def)
qed

text \<open>The latest RSI value is computed from the 14 closes before the last candle.\<close>

lemma rsi_last_all_losses:
  assumes n: "15 \<le> length candles"
    and w: "w = slice (length candles - 15) (length candles - 1) (map close candles)"
    and l: "list_all (\<lambda>j. w ! j < w ! (j - 1)) [1 ..< length w]"
  shows "rsi candles 14 \<noteq> [] \<and> last (rsi candles 14) = 0"
proof -
  have len: "length (rsi candles 14) = length candles - 14" by (rule rsi_length)
  then have ne: "rsi candles 14 \<noteq> []" using n by auto
  have k: "length candles - 15 < length candles - 14" using n by simp
  have "last (rsi candles 14) = rsi candles 14 ! (length candles - 15)"
    using ne len n by (simp add: last_conv_nth)
  also have "\<dots> = rsi_window (slice (length candles - 15) (length candles - 15 + 14)
                               (map close candles)) 14"
    by (rule rsi_nth [OF k])
  also have "length candles - 15 + 14 = length candles - 1" using n by simp
  finally have v: "last (rsi candles 14) = rsi_window w 14" by (simp add: w)
  have lw: "length w = 14" using n by (simp add: w slice_def)
  have "sum_list (gains_of w) / real 14 = 0"
    using all_losses_no_gain [OF l] by simp
  moreover have "sum_list (losses_of w) / real 14 \<noteq> 0"
    using all_losses_some_loss [OF _ l] lw by simp
  ultimately have "rsi_window w 14 = 0" by (rule rsi_window_no_gain)
  with v ne show ?thesis by simp
qed

text \<open>
  Claim C9.  In the analysis returned by \<open>analyze\<close>, each of ema50, ema200, rsi,
  atr and vwap is null whenever its indicator series is empty or the latest value of
  the series is exactly 0.  In particular, on at least 15 candles, when the final
  14-bar window of the RSI computation (the window of its latest value: the 14 closes
  before the last candle) is all losses, the latest RSI value is 0 and the rsi field
  is null, not 0.
\<close>

theorem analyze_zero_is_null:
  "(ema (map close candles) 50 = [] \<or> last (ema (map close candles) 50) = 0
      \<longrightarrow> ema50 (analyze candles) = None) \<and>
   (ema (map close candles) 200 = [] \<or> last (ema (map close candles) 200) = 0
      \<longrightarrow> ema200 (analyze candles) = None) \<and>
   (rsi candles 14 = [] \<or> last (rsi candles 14) = 0
      \<longrightarrow> rsi_latest (analyze candles) = None) \<and>
   (atr candles 14 = [] \<or> last (atr candles 14) = 0
      \<longrightarrow> atr_latest (analyze candles) = None) \<and>
   (vwap candles = [] \<or> last (vwap candles) = Fin 0
      \<longrightarrow> vwap_latest (analyze candles) = None) \<and>
   (15 \<le> length candles \<and>
    (let w = slice (length candles - 15) (length candles - 1) (map close candles)
     in list_all (\<lambda>j. w ! j < w ! (j - 1)) [1 ..< length w])
      \<longrightarrow> rsi_latest (analyze candles) = None \<and> rsi_latest (analyze candles) \<noteq> Some 0)"
proof (intro conjI impI)
  assume "15 \<le> length candles \<and>
    (let w = slice (length candles - 15) (length candles - 1) (map close candles)
     in list_all (\<lambda>j. w ! j < w ! (j - 1)) [1 ..< length w])"
  then have "last (rsi candles 14) = 0"
    using rsi_last_all_losses [of candles] by (simp add: Let_def)
  then show "rsi_latest (analyze candles) = None"
    by (simp add: analyze_def last_or_null_def Let_def)
  then show "rsi_latest (analyze candles) \<noteq> Some 0" by simp
qed (auto simp add: analyze_def last_or_null_def js_last_or_null_def Let_def)

theorem analyze_zero_is_null_witness:
  "15 \<le> length falling15 \<and>
   list_all (\<lambda>j. slice 0 14 (map close falling15) ! j < slice 0 14 (map close falling15) ! (j - 1))
     [1 ..< 14] \<and>
   last (rsi falling15 14) = 0 \<and>
   rsi_latest (analyze falling15) = None \<and>
   atr ([] :: Candle list) 14 = [] \<and> atr_latest (analyze []) = None"
proof -
  have f: "length falling15 = 15" by (simp add: falling15_def)
  have wf: "slice 0 14 (map close falling15) = map (\<lambda>k. 1000 - 10 * real k) [0 ..< 14]"
    by (simp add: slice_def falling15_def bar_def upt_conv_Cons)
  have lf: "list_all (\<lambda>j. slice 0 14 (map close falling15) ! j < slice 0 14 (map close falling15) ! (j - 1))
     [1 ..< 14]"
    unfolding wf by (simp add: upt_conv_Cons)
  have lenf: "length (slice 0 14 (map close falling15)) = 14" unfolding wf by simp
  have z: "last (rsi falling15 14) = 0"
    using rsi_last_all_losses [of falling15 "slice 0 14 (map close falling15)"] f lf lenf by simp
  have e: "atr ([] :: Candle list) 14 = []" by (simp add: atr_def)
  from analyze_zero_is_null [of falling15] analyze_zero_is_null [of "[]"] f lf lenf z e
  show ?thesis by (simp add: Let_def)
qed

subsection \<open>Trade outcome simulator\<close>

lemma scan_exit_untouched:
  "list_all (\<lambda>c. \<not> touches isLong stopLoss tp2 c) cs \<Longrightarrow>
     scan_exit isLong stopLoss tp2 exitPrice cs = exitPrice"
  by (induction cs) (auto simp add: touches_def)

lemma scanned_quiet101:
  "scanned quiet101 0
     = replicate 99 \<lparr>timestamp = 1, open = 105, high = 106, low = 104, close = 105, volume = 1\<rparr>"
  by (simp add: scanned_def slice_def quiet101_def)

lemma following_quiet101:
  "following quiet101 0
     = replicate 100 \<lparr>timestamp = 1, open = 105, high = 106, low = 104, close = 105, volume = 1\<rparr>"
  by (simp add: following_def slice_def quiet101_def)

text \<open>
  Claim C3 says that a trade whose stop-loss and take-profit levels are touched by none
  of the 100 candles following the entry exits at the close of the last scanned candle,
  and that its outcome is derived from that price.  \<open>simulateTrade\<close> never assigns
  the close of a scanned candle: the exit price keeps the value it is initialised with,
  the close of the entry candle.  Entering long at 100 with an ATR of 10 (stop at 80,
  target at 160) on a candle that closes at 100, with each of the 100 following candles
  between 104 and 106 and closing at 105: no candle touches either level, the last
  scanned candle closes at 105, and the code computes the P&L from an exit price of
  100, which gives a P&L of 0, the outcome LOSS and the exit reason TP for a trade that
  never reached its target while the price rose by 5%.
\<close>

theorem untouched_trade_keeps_entry_close:
  "list_all (\<lambda>c. \<not> touches True (stop_loss True 100 10) (take_profit True 100 (stop_loss True 100 10)) c)
     (following quiet101 0) \<and>
   close (last (scanned quiet101 0)) = 105 \<and>
   close (last (following quiet101 0)) = 105 \<and>
   exit_price quiet101 0 100 Long atr10 = 100 \<and>
   simulateTrade quiet101 0 100 Long atr10
     = Inr \<lparr>bt_pnl = Fin 0, bt_pnl_percent = Fin 0, bt_outcome = LOSS,
            bt_exit_reason = ''TP'', bt_holding_periods = 0\<rparr>"
proof -
  have a: "atr_or_range atr10 (quiet101 ! 0) = 10"
    by (simp add: atr_or_range_def atr10_def truthy_def)
  have sl: "stop_loss True 100 10 = 80" by (simp add: stop_loss_def)
  have tp: "take_profit True 100 80 = 160" by (simp add: take_profit_def)
  have all: "list_all (\<lambda>c. \<not> touches True 80 160 c) (following quiet101 0)"
    unfolding following_quiet101 by (simp add: touches_def list_all_iff)
  have e: "exit_price quiet101 0 100 Long atr10 = 100"
    unfolding exit_price_def Let_def a sl tp scanned_quiet101
    by (subst scan_exit_untouched) (simp_all add: touches_def list_all_iff quiet101_def sl tp)
  have l: "close (last (scanned quiet101 0)) = 105"
    unfolding scanned_quiet101 by simp
  have l': "close (last (following quiet101 0)) = 105"
    unfolding following_quiet101 by simp
  have s: "simulateTrade quiet101 0 100 Long atr10
     = Inr \<lparr>bt_pnl = Fin 0, bt_pnl_percent = Fin 0, bt_outcome = LOSS,
            bt_exit_reason = ''TP'', bt_holding_periods = 0\<rparr>"
    unfolding simulateTrade_def Let_def a e
    by (simp add: quiet101_def js_div_def sl)
  from all e l l' s show ?thesis by (simp add: sl tp)
qed

subsection \<open>Histogram prediction model\<close>

text \<open>The feature names of \<open>train\<close> are distinct, so that every call of
  \<open>binFeature\<close> and \<open>binCategorical\<close> appends one entry to the map.\<close>

lemma features_set_fresh:
  "name f \<notin> set (map name fs) \<Longrightarrow> features_set f fs = fs @ [f]"
  by (induction fs) auto

lemma fold_binFeature:
  "distinct (map fst es) \<Longrightarrow> set (map fst es) \<inter> set (map name (features m)) = {} \<Longrightarrow>
     fold (\<lambda>(n, g). binFeature n g trades 10) es m
       = m\<lparr>features := features m @ map (numeric_entry trades) es\<rparr>"
proof (induction es arbitrary: m)
  case Nil
  then show ?case by simp
next
  case (Cons e es)
  obtain n g where e: "e = (n, g)" by (cases e)
  have fresh: "n \<notin> set (map name (features m))" using Cons.prems(2) e by auto
  have step: "binFeature n g trades 10 m
      = m\<lparr>features := features m @ [numeric_entry trades e]\<rparr>"
    using features_set_fresh [OF _] fresh
    by (simp add: binFeature_def numeric_entry_def e features_set_fresh)
  have "fold (\<lambda>(n, g). binFeature n g trades 10) (e # es) m
      = fold (\<lambda>(n, g). binFeature n g trades 10) es (m\<lparr>features := features m @ [numeric_entry trades e]\<rparr>)"
    using step by (simp add: e)
  also have "\<dots> = (m\<lparr>features := features m @ [numeric_entry trades e]\<rparr>)
       \<lparr>features := features (m\<lparr>features := features m @ [numeric_entry trades e]\<rparr>) @ map (numeric_entry trades) es\<rparr>"
    using Cons.prems by (intro Cons.IH) (auto simp add: numeric_entry_def e)
  finally show ?case by simp
qed

lemma fold_binCategorical:
  "distinct (map fst es) \<Longrightarrow> set (map fst es) \<inter> set (map name (features m)) = {} \<Longrightarrow>
     fold (\<lambda>(n, g). binCategorical n g trades) es m
       = m\<lparr>features := features m @ map (categorical_entry trades) es\<rparr>"
proof (induction es arbitrary: m)
  case Nil
  then show ?case by simp
next
  case (Cons e es)
  obtain n g where e: "e = (n, g)" by (cases e)
  have fresh: "n \<notin> set (map name (features m))" using Cons.prems(2) e by auto
  have step: "binCategorical n g trades m
      = m\<lparr>features := features m @ [categorical_entry trades e]\<rparr>"
    using fresh
    by (simp add: binCategorical_def categorical_entry_def e features_set_fresh)
  have "fold (\<lambda>(n, g). binCategorical n g trades) (e # es) m
      = fold (\<lambda>(n, g). binCategorical n g trades) es (m\<lparr>features := features m @ [categorical_entry trades e]\<rparr>)"
    using step by (simp add: e)
  also have "\<dots> = (m\<lparr>features := features m @ [categorical_entry trades e]\<rparr>)
       \<lparr>features := features (m\<lparr>features := features m @ [categorical_entry trades e]\<rparr>) @ map (categorical_entry trades) es\<rparr>"
    using Cons.prems by (intro Cons.IH) (auto simp add: categorical_entry_def e)
  finally show ?case by simp
qed

lemma numeric_names_distinct: "distinct (map fst numeric_features)"
  by (simp add: numeric_features_def)

lemma categorical_names_distinct: "distinct (map fst categorical_features)"
  by (simp add: categorical_features_def)

lemma names_disjoint: "set (map fst categorical_features) \<inter> set (map fst numeric_features) = {}"
  by (simp add: categorical_features_def numeric_features_def)

lemma train_features:
  "features (train trades m)
     = map (\<lambda>f. f\<lparr>importance := importance_of (bins f)\<rparr>)
         (map (numeric_entry trades) numeric_features
          @ map (categorical_entry trades) categorical_features)"
proof -
  have n: "fold (\<lambda>(n, g). binFeature n g trades 10) numeric_features (m\<lparr>features := []\<rparr>)
      = m\<lparr>features := map (numeric_entry trades) numeric_features\<rparr>"
    using fold_binFeature [OF numeric_names_distinct, of "m\<lparr>features := []\<rparr>" trades] by simp
  have names: "map name (map (numeric_entry trades) numeric_features) = map fst numeric_features"
    by (simp add: numeric_entry_def comp_def)
  have c: "fold (\<lambda>(n, g). binCategorical n g trades) categorical_features
         (m\<lparr>features := map (numeric_entry trades) numeric_features\<rparr>)
      = m\<lparr>features := map (numeric_entry trades) numeric_features
                        @ map (categorical_entry trades) categorical_features\<rparr>"
    using fold_binCategorical [OF categorical_names_distinct,
        of "m\<lparr>features := map (numeric_entry trades) numeric_features\<rparr>" trades]
      names_disjoint names
    by simp
  show ?thesis
    by (simp add: train_def Let_def n c calculateFeatureImportance_def)
qed

lemma train_trained: "trained (train trades m)"
  by (simp add: train_def Let_def calculateFeatureImportance_def)

lemma young_old_bins:
  "numeric_bins ob_age young_old 10
     = map (\<lambda>i. \<lparr>bin_min = Fin (10 * real i), bin_max = Fin (10 * real i + 10),
                 count = (if i = 0 then 1 else 0), wins = (if i = 0 then 1 else 0),
                 winRate = (if i = 0 then 1 else 0), bin_value = None\<rparr>) [0 ..< 10]"
  by (simp add: numeric_bins_def numeric_bin_def young_old_def sample_trade_def win_count_def
      win_rate_def Let_def upt_conv_Cons)

text \<open>
  Claim C1 says that the ten bins of a numeric feature cover [min, max] of the training
  values, the last bin including the maximum, so that every training value falls into
  exactly one bin.  Every bin of \<open>binFeature\<close> is half-open, the last one too, and
  \<open>predict\<close> tests bins the same way.  On a corpus of two trades with ob_age 0 and
  100 the bins are [0, 10), ..., [90, 100): the counts add up to 1, the trade with the
  maximal value 100 is in no bin, and after \<open>train\<close> the value 100 matches no bin of
  the feature.
\<close>

theorem maximum_falls_in_no_bin:
  "map ob_age young_old = [0, 100] \<and>
   map bin_min (numeric_bins ob_age young_old 10)
     = map Fin [0, 10, 20, 30, 40, 50, 60, 70, 80, 90] \<and>
   map bin_max (numeric_bins ob_age young_old 10)
     = map Fin [10, 20, 30, 40, 50, 60, 70, 80, 90, 100] \<and>
   map count (numeric_bins ob_age young_old 10) = [1, 0, 0, 0, 0, 0, 0, 0, 0, 0] \<and>
   find (bin_matches (Some (Num 100))) (numeric_bins ob_age young_old 10) = None \<and>
   find (\<lambda>f. name f = ''ob_age'') (features (train young_old new_model))
     = Some \<lparr>name = ''ob_age'', bins = numeric_bins ob_age young_old 10, importance = 0\<rparr>"
proof -
  have i: "importance_of (numeric_bins ob_age young_old 10) = 0"
    unfolding young_old_bins by (simp add: importance_of_def minSampleSize_def upt_conv_Cons)
  have f: "find (\<lambda>f. name f = ''ob_age'') (features (train young_old new_model))
     = Some \<lparr>name = ''ob_age'', bins = numeric_bins ob_age young_old 10, importance = 0\<rparr>"
    unfolding train_features
    by (simp add: numeric_features_def numeric_entry_def i)
  have v: "map ob_age young_old = [0, 100]" by (simp add: young_old_def)
  show ?thesis
    unfolding f v unfolding young_old_bins by (simp add: upt_conv_Cons)
qed

text \<open>The importance \<open>train\<close> stores lies in [0, 1], hence every score is the win
  rate times a factor in [0, 1], and a sum of up to ten such factors is at most 10.\<close>

lemma importance_of_range: "0 \<le> importance_of bs \<and> importance_of bs \<le> 1"
proof -
  define rs where "rs = map winRate (filter (\<lambda>b. minSampleSize \<le> count b) bs)"
  define mean where "mean = sum_list rs / real (length rs)"
  define v where "v = sum_list (map (\<lambda>r. (r - mean)\<^sup>2) rs) / real (length rs)"
  have "0 \<le> v" unfolding v_def
    by (intro divide_nonneg_nonneg sum_list_nonneg) auto
  moreover have "importance_of bs = (if length rs < 2 then 0 else min (v * 10) 1)"
    unfolding importance_of_def Let_def rs_def [symmetric] mean_def [symmetric] v_def [symmetric]
    by (rule refl)
  ultimately show ?thesis by simp
qed

lemma train_importance:
  "f \<in> set (features (train trades m)) \<Longrightarrow> 0 \<le> importance f \<and> importance f \<le> 1"
  unfolding train_features using importance_of_range by auto

lemma score_feature_factor:
  assumes "0 \<le> importance f" and "importance f \<le> 1"
  shows "\<exists>q. 0 \<le> q \<and> q \<le> 1 \<and>
    sf_score (score_feature t f) = sf_winRate (score_feature t f) * q"
proof -
  define hit where "hit = find (bin_matches (feature_value t (name f))) (bins f)"
  define sw where "sw = min (real (case hit of None \<Rightarrow> 0 | Some b \<Rightarrow> count b) / real minSampleSize) 1"
  have sw: "0 \<le> sw" "sw \<le> 1" by (simp_all add: sw_def)
  have "0 \<le> importance f * sw" using assms sw by simp
  moreover have "importance f * sw \<le> 1" using assms sw by (simp add: mult_le_one)
  moreover have "sf_score (score_feature t f) = sf_winRate (score_feature t f) * (importance f * sw)"
    by (simp add: score_feature_def Let_def hit_def sw_def)
  ultimately show ?thesis by blast
qed

lemma foldl_samples_bound:
  assumes "\<forall>s \<in> set fs. sf_winRate s \<noteq> 0 \<and>
             (\<exists>q. 0 \<le> q \<and> q \<le> 1 \<and> sf_score s = sf_winRate s * q)"
  shows "\<exists>c. foldl (\<lambda>sum f. js_add sum (js_min (js_div (sf_score f) (sf_winRate f)) 100)) (Fin a) fs
             = Fin c \<and> a \<le> c \<and> c \<le> a + real (length fs)"
  using assms
proof (induction fs arbitrary: a)
  case Nil
  then show ?case by simp
next
  case (Cons s fs)
  from Cons.prems obtain q where q: "0 \<le> q" "q \<le> 1" "sf_score s = sf_winRate s * q"
    and nz: "sf_winRate s \<noteq> 0" by auto
  have step: "js_add (Fin a) (js_min (js_div (sf_score s) (sf_winRate s)) 100) = Fin (a + q)"
    using q nz by (simp add: js_div_def)
  from Cons.IH [of "a + q"] Cons.prems obtain c where
    c: "foldl (\<lambda>sum f. js_add sum (js_min (js_div (sf_score f) (sf_winRate f)) 100)) (Fin (a + q)) fs
          = Fin c" "a + q \<le> c" "c \<le> a + q + real (length fs)"
    by auto
  show ?case using c q(1,2) by (auto simp add: step)
qed

lemma topFeatures_subset:
  "set (topFeatures m t) \<subseteq> score_feature t ` set (features m)"
  unfolding topFeatures_def using set_take_subset [of 10] by fastforce

lemma topFeatures_length: "length (topFeatures m t) \<le> 10"
  by (simp add: topFeatures_def)

text \<open>
  Claim C10.  For every model that \<open>train\<close> has produced and every feature record for
  which each of the (at most ten) top scored features has a win rate different from 0,
  \<open>predict\<close> returns a prediction whose confidence is a finite number between 0 and
  0.01.
\<close>

theorem confidence_at_most_one_percent:
  assumes "list_all (\<lambda>f. sf_winRate f \<noteq> 0) (topFeatures (train trades m) t)"
  shows "\<exists>p c. predict (train trades m) t = Inr p \<and> confidence p = Fin c \<and> 0 \<le> c \<and> c \<le> 0.01"
proof -
  let ?m = "train trades m"
  have "\<forall>s \<in> set (topFeatures ?m t). sf_winRate s \<noteq> 0 \<and>
          (\<exists>q. 0 \<le> q \<and> q \<le> 1 \<and> sf_score s = sf_winRate s * q)"
  proof
    fix s assume s: "s \<in> set (topFeatures ?m t)"
    then obtain f where f: "f \<in> set (features ?m)" "s = score_feature t f"
      using topFeatures_subset [of ?m t] by auto
    from s assms have "sf_winRate s \<noteq> 0" by (simp add: list_all_iff)
    moreover have "\<exists>q. 0 \<le> q \<and> q \<le> 1 \<and> sf_score s = sf_winRate s * q"
      unfolding f(2) using train_importance [OF f(1)] by (intro score_feature_factor) auto
    ultimately show "sf_winRate s \<noteq> 0 \<and>
          (\<exists>q. 0 \<le> q \<and> q \<le> 1 \<and> sf_score s = sf_winRate s * q)" by simp
  qed
  from foldl_samples_bound [OF this, of 0] obtain c where
    c: "totalSamples (topFeatures ?m t) = Fin c" "0 \<le> c" "c \<le> real (length (topFeatures ?m t))"
    by (auto simp add: totalSamples_def)
  have c10: "c \<le> 10" using c(3) topFeatures_length [of ?m t] by simp
  have "confidence (projr (predict ?m t)) = Fin (min (c / 1000) 1)"
    by (simp add: predict_def train_trained Let_def c(1))
  moreover have "min (c / 1000) 1 \<le> 0.01" "0 \<le> min (c / 1000) 1" using c10 c(2) by simp_all
  moreover have "predict ?m t = Inr (projr (predict ?m t))"
    by (simp add: predict_def train_trained Let_def)
  ultimately show ?thesis by metis
qed

text \<open>Scores on a corpus in which a feature takes a single value: a numeric feature
  then has ten empty bins of width 0 and matches nothing; a feature binned by value has
  one bin, hence importance 0.\<close>

lemma numeric_bins_constant:
  assumes "trades \<noteq> []" and "\<forall>t \<in> set trades. g t = v"
  shows "numeric_bins g trades n
     = map (\<lambda>i. \<lparr>bin_min = Fin v, bin_max = Fin v, count = 0, wins = 0, winRate = 0,
                 bin_value = None\<rparr>) [0 ..< n]"
proof -
  have "set (map g trades) = {v}" using assms by (cases trades) auto
  then have mm: "Min (g ` set trades) = v" "Max (g ` set trades) = v" by simp_all
  have "filter (\<lambda>t. v \<le> g t \<and> g t < v) trades = []" by (simp add: filter_empty_conv)
  then have "numeric_bin g trades v 0 i
     = \<lparr>bin_min = Fin v, bin_max = Fin v, count = 0, wins = 0, winRate = 0, bin_value = None\<rparr>" for i
    by (simp add: numeric_bin_def win_count_def win_rate_def)
  then show ?thesis using assms(1) by (simp add: numeric_bins_def Let_def mm)
qed

lemma score_no_hit:
  assumes "find (bin_matches (feature_value q nm)) bs = None"
  shows "score_feature q \<lparr>name = nm, bins = bs, importance = imp\<rparr>
     = \<lparr>sf_feature = nm, sf_score = 0, sf_winRate = 0.5\<rparr>"
  using assms by (simp add: score_feature_def Let_def)

lemma score_numeric_constant:
  assumes "trades \<noteq> []" and "\<forall>t \<in> set trades. g t = v"
    and "feature_value q nm = Some (Num x)"
  shows "score_feature q \<lparr>name = nm, bins = numeric_bins g trades n, importance = imp\<rparr>
     = \<lparr>sf_feature = nm, sf_score = 0, sf_winRate = 0.5\<rparr>"
  by (rule score_no_hit)
    (simp add: assms(3) numeric_bins_constant [OF assms(1,2)] find_None_iff)

lemma score_number_by_value:
  assumes "feature_value q nm = Some (Num x)"
  shows "score_feature q \<lparr>name = nm, bins = map (categorical_bin g trades) vs, importance = imp\<rparr>
     = \<lparr>sf_feature = nm, sf_score = 0, sf_winRate = 0.5\<rparr>"
  by (rule score_no_hit) (simp add: assms find_None_iff categorical_bin_def Let_def)

lemma unique_values_constant:
  "xs \<noteq> [] \<Longrightarrow> \<forall>x \<in> set xs. x = a \<Longrightarrow> unique_values xs = [a]"
proof (induction xs)
  case Nil
  then show ?case by simp
next
  case (Cons x xs)
  show ?case
  proof (cases "xs = []")
    case True
    with Cons.prems show ?thesis by simp
  next
    case False
    with Cons.prems Cons.IH have "unique_values xs = [a]" and "x = a" by simp_all
    then show ?thesis by simp
  qed
qed

lemma importance_of_single: "importance_of [b] = 0"
  by (simp add: importance_of_def Let_def)

lemma score_single_value:
  assumes "trades \<noteq> []" and all: "\<And>t. t \<in> set trades \<Longrightarrow> g t = a"
    and v: "feature_value q nm = Some a" and nn: "\<And>x. a \<noteq> Num x"
  shows "score_feature q
       \<lparr>name = nm, bins = map (categorical_bin g trades) (unique_values (map g trades)),
        importance = importance_of (map (categorical_bin g trades) (unique_values (map g trades)))\<rparr>
     = \<lparr>sf_feature = nm, sf_score = 0, sf_winRate = win_rate trades\<rparr>"
proof -
  have u: "unique_values (map g trades) = [a]"
    using assms(1) all by (intro unique_values_constant) auto
  have f: "filter (\<lambda>t. g t = a) trades = trades"
    using all by (simp add: filter_id_conv)
  define b where "b = categorical_bin g trades a"
  have b: "count b = length trades" "winRate b = win_rate trades" "bin_value b = Some a"
    by (simp_all add: b_def categorical_bin_def f Let_def)
  have "0 < count b" using assms(1) b(1) by simp
  then have m: "bin_matches (Some a) b"
    using nn b(3) by (cases a) auto
  have "score_feature q \<lparr>name = nm, bins = [b], importance = 0\<rparr>
     = \<lparr>sf_feature = nm, sf_score = 0, sf_winRate = win_rate trades\<rparr>"
    by (simp add: score_feature_def Let_def v m b(2))
  then show ?thesis
    unfolding u by (simp add: importance_of_single b_def)
qed

text \<open>The corpus of 30 winning long trades and 30 losing short trades: only the
  direction separates wins from losses, with win rates 1 and 0 in bins of 30 trades,
  which gives it the importance 1.\<close>

lemma sixty_set: "set sixty = {sample_trade, losing_short}" and sixty_nonempty: "sixty \<noteq> []"
  and sixty_hd: "hd sixty = sample_trade"
  by (auto simp add: sixty_def hd_append)

lemma sixty_filter:
  "filter P sixty = (if P sample_trade then replicate 30 sample_trade else [])
                    @ (if P losing_short then replicate 30 losing_short else [])"
  by (simp add: sixty_def filter_replicate)

lemma sixty_win_rate: "win_rate sixty = 0.5"
  by (simp add: win_rate_def win_count_def sixty_filter sample_trade_def losing_short_def)
    (simp add: sixty_def)

lemma unique_values_replicate:
  "unique_values (replicate n x @ ys)
     = (if n = 0 then unique_values ys else x # filter (\<lambda>y. y \<noteq> x) (unique_values ys))"
  by (induction n) auto

lemma sixty_directions:
  "unique_values (map (\<lambda>t. Str (direction_str (direction t))) sixty) = [Str ''long'', Str ''short'']"
  using unique_values_replicate [of 30 "Str ''long''" "replicate 30 (Str ''short'')"]
    unique_values_replicate [of 30 "Str ''short''" "[]"]
  by (simp add: sixty_def sample_trade_def losing_short_def)

lemma sixty_direction_score:
  "score_feature sample_trade
       \<lparr>name = ''direction'',
        bins = map (categorical_bin (\<lambda>t. Str (direction_str (direction t))) sixty)
                 (unique_values (map (\<lambda>t. Str (direction_str (direction t))) sixty)),
        importance = importance_of (map (categorical_bin (\<lambda>t. Str (direction_str (direction t))) sixty)
                 (unique_values (map (\<lambda>t. Str (direction_str (direction t))) sixty)))\<rparr>
     = \<lparr>sf_feature = ''direction'', sf_score = 1, sf_winRate = 1\<rparr>"
proof -
  have v: "feature_value sample_trade ''direction'' = Some (Str ''long'')"
    by (simp add: feature_value_def numeric_features_def categorical_features_def sample_trade_def)
  have l: "categorical_bin (\<lambda>t. Str (direction_str (direction t))) sixty (Str ''long'')
      = \<lparr>bin_min = Fin 0, bin_max = Fin 0, count = 30, wins = 30, winRate = 1,
         bin_value = Some (Str ''long'')\<rparr>"
    by (simp add: categorical_bin_def sixty_filter win_count_def win_rate_def filter_replicate
        sample_trade_def losing_short_def)
  have s: "categorical_bin (\<lambda>t. Str (direction_str (direction t))) sixty (Str ''short'')
      = \<lparr>bin_min = Fin 0, bin_max = Fin 0, count = 30, wins = 0, winRate = 0,
         bin_value = Some (Str ''short'')\<rparr>"
    by (simp add: categorical_bin_def sixty_filter win_count_def win_rate_def filter_replicate
        sample_trade_def losing_short_def)
  have i: "importance_of
      [\<lparr>bin_min = Fin 0, bin_max = Fin 0, count = 30, wins = 30, winRate = 1,
         bin_value = Some (Str ''long'')\<rparr>,
       \<lparr>bin_min = Fin 0, bin_max = Fin 0, count = 30, wins = 0, winRate = 0,
         bin_value = Some (Str ''short'')\<rparr>] = 1"
    by (simp add: importance_of_def minSampleSize_def Let_def power2_eq_square)
  show ?thesis
    unfolding sixty_directions
    by (simp add: l s i score_feature_def v minSampleSize_def Let_def)
qed

lemma sixty_numeric_fields:
  "list_all (\<lambda>e. snd e losing_short = snd e sample_trade
               \<and> feature_value sample_trade (fst e) = Some (Num (snd e sample_trade)))
     numeric_features"
  by (simp add: numeric_features_def feature_value_def losing_short_def)

lemma sixty_categorical_fields:
  "list_all (\<lambda>e. fst e = ''direction''
               \<or> snd e losing_short = snd e sample_trade
                 \<and> feature_value sample_trade (fst e) = Some (snd e sample_trade))
     categorical_features"
  by (simp add: categorical_features_def numeric_features_def feature_value_def losing_short_def)

lemma direction_accessor:
  "e \<in> set categorical_features \<Longrightarrow> fst e = ''direction'' \<Longrightarrow>
     e = (''direction'', \<lambda>t. Str (direction_str (direction t)))"
  by (auto simp add: categorical_features_def)

lemma sixty_scores:
  "map (score_feature sample_trade) (features (train sixty new_model))
     = map (\<lambda>e. \<lparr>sf_feature = fst e, sf_score = 0, sf_winRate = 0.5\<rparr>) numeric_features
       @ map (\<lambda>e. \<lparr>sf_feature = fst e, sf_score = (if fst e = ''direction'' then 1 else 0),
                     sf_winRate = (if fst e = ''direction'' then 1 else 0.5)\<rparr>) categorical_features"
proof -
  have num: "score_feature sample_trade
        ((numeric_entry sixty e)\<lparr>importance := importance_of (bins (numeric_entry sixty e))\<rparr>)
      = \<lparr>sf_feature = fst e, sf_score = 0, sf_winRate = 0.5\<rparr>"
    if "e \<in> set numeric_features" for e
  proof -
    from that sixty_numeric_fields have
      same: "snd e losing_short = snd e sample_trade"
      and v: "feature_value sample_trade (fst e) = Some (Num (snd e sample_trade))"
      by (auto simp add: list_all_iff)
    have all: "\<forall>t \<in> set sixty. snd e t = snd e sample_trade"
      using same by (simp add: sixty_set)
    show ?thesis
      using score_numeric_constant [OF sixty_nonempty all v]
      by (simp add: numeric_entry_def)
  qed
  have cat: "score_feature sample_trade
        ((categorical_entry sixty e)\<lparr>importance := importance_of (bins (categorical_entry sixty e))\<rparr>)
      = \<lparr>sf_feature = fst e, sf_score = (if fst e = ''direction'' then 1 else 0),
          sf_winRate = (if fst e = ''direction'' then 1 else 0.5)\<rparr>"
    if "e \<in> set categorical_features" for e
  proof (cases "fst e = ''direction''")
    case True
    then have "e = (''direction'', \<lambda>t. Str (direction_str (direction t)))"
      using that by (rule direction_accessor [rotated])
    then show ?thesis
      using sixty_direction_score by (simp add: categorical_entry_def)
  next
    case False
    with that sixty_categorical_fields have
      same: "snd e losing_short = snd e sample_trade"
      and v: "feature_value sample_trade (fst e) = Some (snd e sample_trade)"
      by (auto simp add: list_all_iff)
    show ?thesis
    proof (cases "\<exists>x. snd e sample_trade = Num x")
      case True
      then obtain x where "feature_value sample_trade (fst e) = Some (Num x)" using v by auto
      from score_number_by_value [OF this] False show ?thesis
        by (simp add: categorical_entry_def)
    next
      case nonum: False
      have all: "\<And>t. t \<in> set sixty \<Longrightarrow> snd e t = snd e sample_trade"
        using same by (auto simp add: sixty_set)
      have nn: "\<And>x. snd e sample_trade \<noteq> Num x" using nonum by simp
      from score_single_value [OF sixty_nonempty all v nn] False show ?thesis
        by (simp add: categorical_entry_def sixty_win_rate)
    qed
  qed
  show ?thesis
    unfolding train_features by (simp add: num cat)
qed

lemma sixty_top:
  "topFeatures (train sixty new_model) sample_trade
     = \<lparr>sf_feature = ''direction'', sf_score = 1, sf_winRate = 1\<rparr>
       # map (\<lambda>n. \<lparr>sf_feature = n, sf_score = 0, sf_winRate = 0.5\<rparr>)
           [''trend_strength'', ''ob_distance'', ''ob_size'', ''ob_age'', ''fvg_nearest_distance'',
            ''fvg_size'', ''fvg_count'', ''volatility'', ''rsi_value'']"
  unfolding topFeatures_def sixty_scores
  by (simp add: numeric_features_def categorical_features_def)

text \<open>For a long trade the model trained on that corpus ranks the direction first with
  score 1; every win rate it reads is 1 or 0.5, and the confidence is 0.001.\<close>

theorem confidence_at_most_one_percent_witness:
  "list_all (\<lambda>f. sf_winRate f \<noteq> 0) (topFeatures (train sixty new_model) sample_trade) \<and>
   (\<exists>p c. predict (train sixty new_model) sample_trade = Inr p \<and>
          confidence p = Fin c \<and> 0 \<le> c \<and> c \<le> 0.01) \<and>
   predict (train sixty new_model) sample_trade
     = Inr \<lparr>winProbability = 1, confidence = Fin (1 / 1000),
            keyFeatures = [''direction'', ''trend_strength'', ''ob_distance'', ''ob_size'',
                           ''ob_age'']\<rparr>"
proof -
  have h: "list_all (\<lambda>f. sf_winRate f \<noteq> 0)
             (topFeatures (train sixty new_model) sample_trade)"
    by (simp add: sixty_top)
  have v: "predict (train sixty new_model) sample_trade
     = Inr \<lparr>winProbability = 1, confidence = Fin (1 / 1000),
            keyFeatures = [''direction'', ''trend_strength'', ''ob_distance'', ''ob_size'',
                           ''ob_age'']\<rparr>"
    by (simp add: predict_def train_trained Let_def sixty_top totalSamples_def js_div_def)
  from confidence_at_most_one_percent [OF h] h v show ?thesis by simp
qed

subsection \<open>Backtest-learn loop\<close>

text \<open>An iteration always measures: \<open>train\<close> sets the flag that \<open>predict\<close> tests.\<close>

lemma evaluate_loop_returns:
  "trained m \<Longrightarrow> \<exists>r. evaluate_loop m trades correct errors = Inr r"
  by (induction trades arbitrary: correct errors) (simp_all add: predict_def Let_def)

lemma evaluateModel_returns: "trained m \<Longrightarrow> \<exists>acc errors. evaluateModel m trades = Inr (acc, errors)"
  using evaluate_loop_returns [of m trades 0 "[]"] by (auto simp add: evaluateModel_def)

lemma measure_iteration_returns: "\<exists>r. measure_iteration cfg shuffle i st = Inr r"
proof -
  let ?shuffled = "shuffle i (trainingData st)"
  let ?k = "nat \<lfloor>real (length ?shuffled) * trainTestSplit cfg\<rfloor>"
  let ?m = "train (slice 0 ?k ?shuffled) (model st)"
  obtain a es where t: "evaluateModel ?m (drop ?k ?shuffled) = Inr (a, es)"
    using evaluateModel_returns [OF train_trained] by blast
  obtain b fs where u: "evaluateModel ?m (slice 0 ?k ?shuffled) = Inr (b, fs)"
    using evaluateModel_returns [OF train_trained] by blast
  show ?thesis by (simp add: measure_iteration_def Let_def t u)
qed

text \<open>A model trained on a single winning trade scores every feature of that trade
  with 0, and no win rate it reads is 0.\<close>

lemma single_scores:
  "list_all (\<lambda>s. sf_score s = 0 \<and> sf_winRate s \<noteq> 0)
     (map (score_feature sample_trade) (features single_trained))"
  unfolding single_trained_def train_features
  by (simp add: numeric_features_def categorical_features_def other_fields_def
      numeric_entry_def categorical_entry_def numeric_bins_def numeric_bin_def
      categorical_bin_def score_feature_def feature_value_def sample_trade_def
      win_rate_def win_count_def importance_of_def minSampleSize_def Let_def upt_conv_Cons)

lemma single_top:
  "list_all (\<lambda>s. sf_score s = 0 \<and> sf_winRate s \<noteq> 0) (topFeatures single_trained sample_trade)"
  using single_scores topFeatures_subset [of single_trained sample_trade]
  by (auto simp add: list_all_iff)

text \<open>The second iteration on a pool of two copies of a winning trade, after a test
  accuracy of 1: trained on one copy, the model predicts the other with probability
  0.5, which counts as a predicted win, so that the test accuracy is 1 again.\<close>

lemma single_probability:
  "\<exists>p. predict single_trained sample_trade = Inr p \<and> winProbability p = 0.5"
proof -
  have "sum_list (map sf_score (topFeatures single_trained sample_trade)) = 0"
    by (rule sum_list_map_zero) (use single_top in \<open>simp add: list_all_iff\<close>)
  moreover have "trained single_trained" by (simp add: single_trained_def train_trained)
  ultimately show ?thesis by (simp add: predict_def Let_def)
qed

lemma single_evaluate: "evaluateModel single_trained [sample_trade] = Inr (Fin 1, [])"
proof -
  from single_probability obtain p where
    p: "predict single_trained sample_trade = Inr p" "winProbability p = 0.5" by blast
  have "outcome sample_trade = WIN" by (simp add: sample_trade_def)
  then show ?thesis by (simp add: evaluateModel_def p js_div_def Let_def)
qed

text \<open>What \<open>train\<close> returns does not depend on the model it is called on.\<close>

lemma train_independent: "train trades m = train trades new_model"
  by (rule TradingMLModel.equality) (simp_all add: train_features train_trained)

lemma two_wins_measure:
  assumes "trainingData st = [sample_trade, sample_trade]"
  shows "measure_iteration CONFIG keep_order i st
     = Inr \<lparr>trained_model = single_trained, train_accuracy = Fin 1, test_accuracy = Fin 1,
            test_errors = []\<rparr>"
proof -
  have "nat \<lfloor>real (length [sample_trade, sample_trade]) * trainTestSplit CONFIG\<rfloor> = 1"
    by (simp add: CONFIG_def)
  moreover have "train [sample_trade] (model st) = single_trained"
    unfolding single_trained_def by (rule train_independent)
  ultimately show ?thesis
    by (simp add: measure_iteration_def Let_def assms keep_order_def slice_def single_evaluate)
qed

text \<open>The first iteration misclassifies nothing and leads to the state \<open>after_first\<close>.\<close>

lemma two_wins_first_iteration:
  "run_loop CONFIG keep_order 1 two_wins = run_loop CONFIG keep_order 2 after_first"
proof -
  have m: "measure_iteration CONFIG keep_order i two_wins
     = Inr \<lparr>trained_model = single_trained, train_accuracy = Fin 1, test_accuracy = Fin 1,
            test_errors = []\<rparr>" for i
    by (rule two_wins_measure) (simp add: two_wins_def)
  have "run_loop CONFIG keep_order 1 two_wins
      = run_loop CONFIG keep_order (1 + 1)
          (two_wins\<lparr>model := single_trained,
             iterations := iterations two_wins
               @ [iteration_record 1 two_wins
                    \<lparr>trained_model = single_trained, train_accuracy = Fin 1,
                     test_accuracy = Fin 1, test_errors = []\<rparr>],
             trainingData := emphasize CONFIG [] (trainingData two_wins),
             lastAccuracy := Fin 1\<rparr>)"
    by (subst run_loop.simps) (simp add: m Let_def, simp add: CONFIG_def)
  also have "two_wins\<lparr>model := single_trained,
             iterations := iterations two_wins
               @ [iteration_record 1 two_wins
                    \<lparr>trained_model = single_trained, train_accuracy = Fin 1,
                     test_accuracy = Fin 1, test_errors = []\<rparr>],
             trainingData := emphasize CONFIG [] (trainingData two_wins),
             lastAccuracy := Fin 1\<rparr> = after_first"
    by (simp add: two_wins_def after_first_def emphasize_def iteration_record_def js_sub_def)
  finally show ?thesis by (simp add: numeral_2_eq_2)
qed

text \<open>
  Claim C7.  If, at an iteration \<open>i\<close> after the first and within the iteration budget,
  the improvement of the test accuracy over the accuracy of the previous iteration is
  below the convergence threshold, the loop ends at that iteration: the state it
  returns holds exactly one more iteration record than the state the iteration started
  in, the record of iteration \<open>i\<close>, so that no further iteration has run, and its
  training pool is the pool the iteration started with, so that no copies of the
  misclassified records have been appended.  The accuracies are those the iteration
  measures, for whatever order the random shuffle produces.
\<close>

theorem loop_stops_on_convergence:
  assumes "1 < i" and "i \<le> maxIterations cfg"
    and "measure_iteration cfg shuffle i st = Inr r"
    and "js_less (js_sub (test_accuracy r) (lastAccuracy st)) (minAccuracyImprovement cfg)"
  shows "\<exists>st'. run_loop cfg shuffle i st = Inr st' \<and>
           trainingData st' = trainingData st \<and>
           iterations st' = iterations st @ [iteration_record i st r] \<and>
           iteration (last (iterations st')) = i \<and>
           model st' = trained_model r"
  using assms by (subst run_loop.simps) (simp add: Let_def iteration_record_def)

text \<open>On a pool of two copies of a winning trade the second iteration repeats the
  test accuracy of the first, and the loop ends there with the pool it started with.\<close>

theorem loop_stops_on_convergence_witness:
  "(1::nat) < 2 \<and> 2 \<le> maxIterations CONFIG \<and>
   measure_iteration CONFIG keep_order 2 after_first
     = Inr \<lparr>trained_model = single_trained, train_accuracy = Fin 1, test_accuracy = Fin 1,
            test_errors = []\<rparr> \<and>
   js_less (js_sub (Fin 1) (lastAccuracy after_first)) (minAccuracyImprovement CONFIG) \<and>
   (\<exists>st'. run_loop CONFIG keep_order 1 two_wins = Inr st' \<and>
          trainingData st' = [sample_trade, sample_trade] \<and>
          map iteration (iterations st') = [1, 2])"
proof -
  have a: "(1::nat) < 2" and b: "2 \<le> maxIterations CONFIG" by (simp_all add: CONFIG_def)
  have m: "measure_iteration CONFIG keep_order 2 after_first
     = Inr \<lparr>trained_model = single_trained, train_accuracy = Fin 1, test_accuracy = Fin 1,
            test_errors = []\<rparr>"
    by (rule two_wins_measure) (simp add: after_first_def)
  have c: "js_less (js_sub (test_accuracy \<lparr>trained_model = single_trained, train_accuracy = Fin 1,
              test_accuracy = Fin 1, test_errors = []\<rparr>) (lastAccuracy after_first))
            (minAccuracyImprovement CONFIG)"
    by (simp add: js_sub_def after_first_def CONFIG_def)
  have "\<exists>st'. run_loop CONFIG keep_order 1 two_wins = Inr st' \<and>
          trainingData st' = [sample_trade, sample_trade] \<and>
          map iteration (iterations st') = [1, 2]"
    unfolding two_wins_first_iteration
    using loop_stops_on_convergence [OF a b m c]
    by (auto simp add: after_first_def iteration_record_def)
  with a b c m show ?thesis by simp
qed

end
